theory Spec2Isabelle
  imports Main
begin

unbundle bit_operations_syntax

section \<open>Data model of smallsh.c\<close>

text \<open>
  The shell is one C file. Its process-wide state is three globals: \<open>fg_only\<close>,
  \<open>background_processes[MAX_BG_PC]\<close> and \<open>prev_fg_status\<close>. The model adds the two signal
  dispositions that \<open>main\<close> installs and a log of what the process did (what it wrote and
  which system calls it made), so that statements about printing and waiting have a subject.
  Answers of the operating system (what \<open>fork\<close>, \<open>waitpid\<close>, \<open>open\<close>, \<open>dup2\<close> and
  \<open>execvp\<close> return, which line \<open>fgets\<close> reads) are parameters, collected in \<open>env\<close>.
\<close>

definition INPUT_LENGTH :: nat where "INPUT_LENGTH = 2048"
definition MAX_ARGS :: nat where "MAX_ARGS = 512"
definition MAX_BG_PC :: nat where "MAX_BG_PC = 20"

text \<open>\<open>WNOHANG\<close> of \<open>sys/wait.h\<close>; the blocking wait passes 0.\<close>

definition WNOHANG :: int where "WNOHANG = 1"

record last_status =
  exited :: bool
  terminated :: bool
  code :: int

record command_line =
  argv :: "string list"  \<comment> \<open>\<open>argv[0 .. argc - 1]\<close>; \<open>argc\<close> is the length\<close>
  input_file :: "string option"
  output_file :: "string option"
  is_bg :: bool

datatype oflag = O_RDONLY | O_WRONLY | O_CREAT | O_TRUNC

datatype event =
    Printf string  \<comment> \<open>\<open>printf\<close>: the formatted bytes, to standard output\<close>
  | Write string  \<comment> \<open>\<open>write(STDOUT_FILENO, ...)\<close>\<close>
  | Perror string  \<comment> \<open>\<open>perror(s)\<close>: \<open>s\<close> and the text of \<open>errno\<close>, to standard error\<close>
  | Fork
  | Waitpid int int  \<comment> \<open>\<open>waitpid(pid, &status, options)\<close>\<close>
  | Open string "oflag list" "nat option"  \<comment> \<open>\<open>open(path, flags[, mode])\<close>\<close>
  | Dup2 int int
  | Execvp string "string list"
  | Chdir "string option"  \<comment> \<open>\<open>None\<close> is the null pointer \<open>getenv\<close> gave\<close>

datatype handler = Handle_SIGINT | Handle_SIGTSTP

text \<open>
  A signal disposition: the default action, ignored, or a handler of this program together
  with whether \<open>SA_RESTART\<close> is among its \<open>sa_flags\<close>.
\<close>

datatype sigdisp = SIG_DFL | SIG_IGN | SigHandler handler bool

record shell_state =
  fg_only :: bool
  background_processes :: "int list"
  prev_fg_status :: last_status
  sigint_action :: sigdisp
  sigtstp_action :: sigdisp
  log :: "event list"

text \<open>
  What the operating system answers during one pass of the interpreter loop.
  \<open>poll pid\<close> is the return value of \<open>waitpid(pid, &bgStatus, WNOHANG)\<close> and the status
  word it stored; \<open>wait_status\<close> is the content of \<open>fgStatus\<close> after the blocking
  \<open>waitpid\<close> returned \<open>wait_ret\<close> (the variable is not initialised, so after a failed
  call the content is whatever the environment says).
\<close>

record env =
  input_line :: string
  stale_buffer :: string
  home :: "string option"
  poll :: "int \<Rightarrow> int \<times> int"
  fork_ret :: int
  wait_ret :: int
  wait_status :: int
  open_ret :: "string \<Rightarrow> oflag list \<Rightarrow> int"
  dup2_ret :: "int \<Rightarrow> int \<Rightarrow> int"
  exec_ok :: bool

text \<open>
  How a piece of the program ends: it returns to the interpreter loop with a new state,
  the shell process calls \<open>exit\<close>, the forked child calls \<open>exit\<close>, the forked child replaced
  its program image (the state is the one at the call of \<open>execvp\<close>), the process dereferenced
  a null pointer or wrote past an array, or it was killed by a signal.
\<close>

datatype outcome =
    Running shell_state
  | ShellExit int shell_state
  | ChildExit int shell_state
  | ChildExec "string list" shell_state
  | Crash
  | Killed int

definition emit :: "event \<Rightarrow> shell_state \<Rightarrow> shell_state" where
  "emit ev s = s\<lparr>log := log s @ [ev]\<rparr>"

subsection \<open>The status word of \<open>waitpid\<close>\<close>

text \<open>
  The macros of \<open>sys/wait.h\<close> as glibc defines them on Linux. The cast to
  \<open>signed char\<close> in \<open>WIFSIGNALED\<close> is written out.
\<close>

definition WTERMSIG :: "int \<Rightarrow> int" where
  "WTERMSIG st = st AND 0x7f"

definition WEXITSTATUS :: "int \<Rightarrow> int" where
  "WEXITSTATUS st = drop_bit 8 (st AND 0xff00)"

definition WIFEXITED :: "int \<Rightarrow> bool" where
  "WIFEXITED st = (WTERMSIG st = 0)"

definition signed_char :: "int \<Rightarrow> int" where
  "signed_char x = (if x mod 256 < 128 then x mod 256 else x mod 256 - 256)"

definition WIFSIGNALED :: "int \<Rightarrow> bool" where
  "WIFSIGNALED st = (drop_bit 1 (signed_char ((st AND 0x7f) + 1)) > 0)"

subsection \<open>\<open>printf("%d")\<close>\<close>

fun digits :: "nat \<Rightarrow> string" where
  "digits n =
     (if n < 10 then [''0123456789'' ! n]
      else digits (n div 10) @ [''0123456789'' ! (n mod 10)])"

declare digits.simps [simp del]

definition show_int :: "int \<Rightarrow> string" where
  "show_int i = (if i < 0 then CHR ''-'' # digits (nat (- i)) else digits (nat i))"

section \<open>Signal handlers\<close>

definition msg_enter :: string where
  "msg_enter = ''\<newline>Entering foreground-only mode (& is now ignored)\<newline>''"

definition msg_exit :: string where
  "msg_exit = ''\<newline>Exiting foreground-only mode\<newline>''"

definition handle_SIGTSTP :: "shell_state \<Rightarrow> shell_state" where
  "handle_SIGTSTP s =
     (if \<not> fg_only s then emit (Write msg_enter) (s\<lparr>fg_only := True\<rparr>)
      else emit (Write msg_exit) (s\<lparr>fg_only := False\<rparr>))"

definition handle_SIGINT :: "shell_state \<Rightarrow> shell_state" where
  "handle_SIGINT s = s"

datatype signal = SIGINT | SIGTSTP

definition signo :: "signal \<Rightarrow> int" where
  "signo sg = (case sg of SIGINT \<Rightarrow> 2 | SIGTSTP \<Rightarrow> 20)"

definition disposition :: "signal \<Rightarrow> shell_state \<Rightarrow> sigdisp" where
  "disposition sg s = (case sg of SIGINT \<Rightarrow> sigint_action s | SIGTSTP \<Rightarrow> sigtstp_action s)"

definition run_handler :: "handler \<Rightarrow> shell_state \<Rightarrow> shell_state" where
  "run_handler h s = (case h of Handle_SIGINT \<Rightarrow> handle_SIGINT s | Handle_SIGTSTP \<Rightarrow> handle_SIGTSTP s)"

text \<open>
  Delivery of a signal to a process in state \<open>s\<close>, by its disposition: the default action
  of SIGINT terminates the process (the default action of SIGTSTP stops it, which leaves
  its state as it is), an ignored signal does nothing, a caught one runs the handler.
\<close>

definition deliver :: "signal \<Rightarrow> shell_state \<Rightarrow> outcome" where
  "deliver sg s =
     (case disposition sg s of
        SIG_DFL \<Rightarrow> (case sg of SIGINT \<Rightarrow> Killed (signo SIGINT) | SIGTSTP \<Rightarrow> Running s)
      | SIG_IGN \<Rightarrow> Running s
      | SigHandler h _ \<Rightarrow> Running (run_handler h s))"

text \<open>
  What \<open>execve\<close> does to a disposition (POSIX): a caught signal is reset to the default
  action, since the handler's code is gone; default and ignored stay.
\<close>

definition after_exec :: "sigdisp \<Rightarrow> sigdisp" where
  "after_exec d = (case d of SigHandler _ _ \<Rightarrow> SIG_DFL | _ \<Rightarrow> d)"

section \<open>The background job table\<close>

text \<open>
  The body of the \<open>for\<close> loop of \<open>check_background_processes\<close> at slot \<open>i\<close>. What is
  printed is \<open>result\<close>, the process id that \<open>waitpid\<close> returned. \<open>bgStatus\<close> is read only
  after a call that returned one.
\<close>

definition check_slot :: "(int \<Rightarrow> int \<times> int) \<Rightarrow> nat \<Rightarrow> shell_state \<Rightarrow> shell_state" where
  "check_slot pl i s =
     (if background_processes s ! i \<noteq> 0 then
        (let pid = background_processes s ! i;
             result = fst (pl pid);
             bgStatus = snd (pl pid);
             s1 = emit (Waitpid pid WNOHANG) s
         in if result > 0 then
              (let s2 =
                 (if WIFEXITED bgStatus then
                    emit (Printf (''background pid '' @ show_int result @ '' is done: exit value ''
                                  @ show_int (WEXITSTATUS bgStatus) @ ''\<newline>'')) s1
                  else if WIFSIGNALED bgStatus then
                    emit (Printf (''background pid '' @ show_int result
                                  @ '' is done: terminated by signal ''
                                  @ show_int (WTERMSIG bgStatus) @ ''\<newline>'')) s1
                  else s1)
               in s2\<lparr>background_processes := (background_processes s2)[i := 0]\<rparr>)
            else s1)
      else s)"

function check_bg_loop :: "(int \<Rightarrow> int \<times> int) \<Rightarrow> nat \<Rightarrow> shell_state \<Rightarrow> shell_state" where
  "check_bg_loop pl i s =
     (if i < MAX_BG_PC then check_bg_loop pl (Suc i) (check_slot pl i s) else s)"
  by pat_completeness auto
termination
  by (relation "measure (\<lambda>(pl, i, s). MAX_BG_PC - i)") auto

declare check_bg_loop.simps [simp del]

definition check_background_processes :: "(int \<Rightarrow> int \<times> int) \<Rightarrow> shell_state \<Rightarrow> shell_state" where
  "check_background_processes pl s = check_bg_loop pl 0 s"

text \<open>The loop of \<open>add_bg_process\<close> from slot \<open>i\<close> on; it returns at the first free slot.\<close>

function add_bg_loop :: "nat \<Rightarrow> int \<Rightarrow> int list \<Rightarrow> int list" where
  "add_bg_loop i pid tbl =
     (if i < MAX_BG_PC then
        (if tbl ! i = 0 then tbl[i := pid] else add_bg_loop (Suc i) pid tbl)
      else tbl)"
  by pat_completeness auto
termination
  by (relation "measure (\<lambda>(i, pid, tbl). MAX_BG_PC - i)") auto

declare add_bg_loop.simps [simp del]

definition add_bg_process :: "int \<Rightarrow> shell_state \<Rightarrow> shell_state" where
  "add_bg_process pid s =
     s\<lparr>background_processes := add_bg_loop 0 pid (background_processes s)\<rparr>"

section \<open>Reading and parsing a line\<close>

text \<open>
  \<open>fgets(input, INPUT_LENGTH, stdin)\<close> stores at most \<open>INPUT_LENGTH - 1\<close> bytes and stops
  after a newline. \<open>input_line\<close> is what is ahead on standard input; when nothing is
  (end of file), \<open>fgets\<close> stores nothing and the array keeps its earlier content,
  \<open>stale_buffer\<close>.
\<close>

fun upto_newline :: "string \<Rightarrow> string" where
  "upto_newline [] = []"
| "upto_newline (c # cs) = (if c = CHR ''\<newline>'' then [c] else c # upto_newline cs)"

definition fgets :: "nat \<Rightarrow> string \<Rightarrow> string \<Rightarrow> string" where
  "fgets n stale ahead = (if ahead = [] then stale else take (n - 1) (upto_newline ahead))"

definition is_delim :: "char \<Rightarrow> bool" where
  "is_delim c = (c = CHR '' '' \<or> c = CHR ''\<newline>'')"

text \<open>
  All the tokens that the calls \<open>strtok(input, " \n")\<close>, \<open>strtok(NULL, " \n")\<close>, ... return
  in turn: the maximal runs of bytes that are not delimiters. The argument is the content
  of the array; the string that \<open>strtok\<close> reads ends at its first NUL byte, so no byte
  after that is part of any token. \<open>cur\<close> is the token being read, reversed.
\<close>

fun strtok_all :: "string \<Rightarrow> string \<Rightarrow> string list" where
  "strtok_all cur [] = (if cur = [] then [] else [rev cur])"
| "strtok_all cur (c # cs) =
     (if c = CHR 0x00 then (if cur = [] then [] else [rev cur])
      else if is_delim c then (if cur = [] then strtok_all [] cs else rev cur # strtok_all [] cs)
      else strtok_all (c # cur) cs)"

datatype parse_error =
    NullDeref  \<comment> \<open>\<open>strdup(NULL)\<close>\<close>
  | ArgvOverflow  \<comment> \<open>a write past \<open>argv[MAX_ARGS]\<close>\<close>

definition empty_command :: command_line where
  "empty_command = \<lparr>argv = [], input_file = None, output_file = None, is_bg = False\<rparr>"

fun parse_tokens :: "string list \<Rightarrow> command_line \<Rightarrow> parse_error + command_line" where
  "parse_tokens [] c = Inr c"
| "parse_tokens (t # ts) c =
     (if t = ''<'' then
        (case ts of [] \<Rightarrow> Inl NullDeref
         | f # rest \<Rightarrow> parse_tokens rest (c\<lparr>input_file := Some f\<rparr>))
      else if t = ''>'' then
        (case ts of [] \<Rightarrow> Inl NullDeref
         | f # rest \<Rightarrow> parse_tokens rest (c\<lparr>output_file := Some f\<rparr>))
      else if t = ''&'' then parse_tokens ts (c\<lparr>is_bg := True\<rparr>)
      else if length (argv c) > MAX_ARGS then Inl ArgvOverflow
      else parse_tokens ts (c\<lparr>argv := argv c @ [t]\<rparr>))"

definition parse_line :: "string \<Rightarrow> parse_error + command_line" where
  "parse_line input = parse_tokens (strtok_all [] input) empty_command"

section \<open>Running a command\<close>

definition bind_run :: "outcome \<Rightarrow> (shell_state \<Rightarrow> outcome) \<Rightarrow> outcome" where
  "bind_run r f = (case r of Running s \<Rightarrow> f s | _ \<Rightarrow> r)"

text \<open>
  \<open>execvp(cmd->argv[0], cmd->argv)\<close>. With \<open>argc = 0\<close> the file name is a null pointer, and
  with more than \<open>MAX_ARGS\<close> arguments the array has no terminating null pointer: both are
  reads of memory the program does not own. \<open>execvp\<close> returns only when it failed.
\<close>

definition exec_program :: "command_line \<Rightarrow> bool \<Rightarrow> shell_state \<Rightarrow> outcome" where
  "exec_program cmd ok s =
     (case argv cmd of
        [] \<Rightarrow> Crash
      | a0 # _ \<Rightarrow>
          if length (argv cmd) > MAX_ARGS then Crash
          else (let s1 = emit (Execvp a0 (argv cmd)) s
                in if ok then ChildExec (argv cmd) s1
                   else ChildExit 2 (emit (Perror a0) s1)))"

definition fg_redirect_input ::
  "command_line \<Rightarrow> (string \<Rightarrow> oflag list \<Rightarrow> int) \<Rightarrow> (int \<Rightarrow> int \<Rightarrow> int) \<Rightarrow> shell_state \<Rightarrow> outcome" where
  "fg_redirect_input cmd opn dup s =
     (case input_file cmd of
        None \<Rightarrow> Running s
      | Some p \<Rightarrow>
          (let sourceFD = opn p [O_RDONLY];
               s1 = emit (Open p [O_RDONLY] None) s
           in if sourceFD = - 1 then
                ChildExit 1 (emit (Printf (''cannot open '' @ p @ '' for input\<newline>'')) s1)
              else
                (let in_result = dup sourceFD 0;
                     s2 = emit (Dup2 sourceFD 0) s1
                 in if in_result = - 1 then ChildExit 2 (emit (Perror p) s2)
                    else Running s2)))"

text \<open>The mode \<open>0644\<close> is an octal literal.\<close>

definition mode_0644 :: nat where
  "mode_0644 = 6 * 8 ^ 2 + 4 * 8 + 4"

definition fg_redirect_output ::
  "command_line \<Rightarrow> (string \<Rightarrow> oflag list \<Rightarrow> int) \<Rightarrow> (int \<Rightarrow> int \<Rightarrow> int) \<Rightarrow> shell_state \<Rightarrow> outcome" where
  "fg_redirect_output cmd opn dup s =
     (case output_file cmd of
        None \<Rightarrow> Running s
      | Some p \<Rightarrow>
          (let targetFD = opn p [O_WRONLY, O_CREAT, O_TRUNC];
               s1 = emit (Open p [O_WRONLY, O_CREAT, O_TRUNC] (Some mode_0644)) s
           in if targetFD = - 1 then ChildExit 1 (emit (Perror p) s1)
              else
                (let out_result = dup targetFD 1;
                     s2 = emit (Dup2 targetFD 1) s1
                 in if out_result = - 1 then ChildExit 2 (emit (Perror p) s2)
                    else Running s2)))"

definition fg_wait :: "int \<Rightarrow> env \<Rightarrow> shell_state \<Rightarrow> outcome" where
  "fg_wait childPid e s =
     (let s1 = emit (Waitpid childPid 0) s;
          s2 = (if wait_ret e = - 1 then emit (Perror ''wait'') s1 else s1);
          fgStatus = wait_status e;
          s3 =
            (if WIFSIGNALED fgStatus then
               s2\<lparr>prev_fg_status :=
                    (prev_fg_status s2)\<lparr>terminated := True, exited := False,
                                        code := WTERMSIG fgStatus\<rparr>\<rparr>
             else if WIFEXITED fgStatus then
               s2\<lparr>prev_fg_status :=
                    (prev_fg_status s2)\<lparr>exited := True, terminated := False,
                                        code := WEXITSTATUS fgStatus\<rparr>\<rparr>
             else s2)
      in if terminated (prev_fg_status s3) then
           Running (emit (Printf (''terminated by signal '' @ show_int (code (prev_fg_status s3))
                                  @ ''\<newline>'')) s3)
         else Running s3)"

text \<open>
  \<open>foreground_process\<close>, as run by the process that \<open>fork\<close> returned \<open>fork_ret e\<close> to:
  the shell when it is \<open>-1\<close> or a process id, the new child when it is 0.
\<close>

definition foreground_process :: "command_line \<Rightarrow> env \<Rightarrow> shell_state \<Rightarrow> outcome" where
  "foreground_process cmd e s =
     (let childPid = fork_ret e;
          s0 = emit Fork s
      in if childPid = - 1 then ShellExit 1 (emit (Perror ''fork()\<newline>'') s0)
         else if childPid = 0 then
           bind_run (fg_redirect_input cmd (open_ret e) (dup2_ret e) s0) (\<lambda>s1.
           bind_run (fg_redirect_output cmd (open_ret e) (dup2_ret e) s1) (\<lambda>s2.
           exec_program cmd (exec_ok e) s2))
         else fg_wait childPid e s0)"

definition bg_redirect_input ::
  "command_line \<Rightarrow> (string \<Rightarrow> oflag list \<Rightarrow> int) \<Rightarrow> (int \<Rightarrow> int \<Rightarrow> int) \<Rightarrow> shell_state \<Rightarrow> outcome" where
  "bg_redirect_input cmd opn dup s =
     (let src_file = (case input_file cmd of Some p \<Rightarrow> p | None \<Rightarrow> ''/dev/null'');
          sourceFD = opn src_file [O_RDONLY];
          s1 = emit (Open src_file [O_RDONLY] None) s
      in if sourceFD = - 1 then ChildExit 1 (emit (Perror src_file) s1)
         else
           (let in_result = dup sourceFD 0;
                s2 = emit (Dup2 sourceFD 0) s1
            in if in_result = - 1 then ChildExit 2 (emit (Perror src_file) s2)
               else Running s2))"

definition bg_redirect_output ::
  "command_line \<Rightarrow> (string \<Rightarrow> oflag list \<Rightarrow> int) \<Rightarrow> (int \<Rightarrow> int \<Rightarrow> int) \<Rightarrow> shell_state \<Rightarrow> outcome" where
  "bg_redirect_output cmd opn dup s =
     (let target_file = (case output_file cmd of Some p \<Rightarrow> p | None \<Rightarrow> ''/dev/null'');
          targetFD = opn target_file [O_WRONLY, O_CREAT, O_TRUNC];
          s1 = emit (Open target_file [O_WRONLY, O_CREAT, O_TRUNC] (Some mode_0644)) s
      in if targetFD = - 1 then ChildExit 1 (emit (Perror target_file) s1)
         else
           (let out_result = dup targetFD 1;
                s2 = emit (Dup2 targetFD 1) s1
            in if out_result = - 1 then ChildExit 2 (emit (Perror target_file) s2)
               else Running s2))"

definition background_process :: "command_line \<Rightarrow> env \<Rightarrow> shell_state \<Rightarrow> outcome" where
  "background_process cmd e s =
     (let childPid = fork_ret e;
          s0 = emit Fork s
      in if childPid = - 1 then ShellExit 1 (emit (Perror ''fork()\<newline>'') s0)
         else if childPid = 0 then
           bind_run (bg_redirect_input cmd (open_ret e) (dup2_ret e) s0) (\<lambda>s1.
           bind_run (bg_redirect_output cmd (open_ret e) (dup2_ret e) s1) (\<lambda>s2.
           exec_program cmd (exec_ok e) s2))
         else
           Running (emit (Printf (''background pid is '' @ show_int childPid @ ''\<newline>''))
                      (add_bg_process childPid s0)))"

section \<open>The interpreter loop\<close>

text \<open>The globals as the C initialisers leave them, with the inherited default dispositions.\<close>

definition initial_state :: shell_state where
  "initial_state =
     \<lparr>fg_only = False,
      background_processes = replicate MAX_BG_PC 0,
      prev_fg_status = \<lparr>exited = False, terminated = False, code = 0\<rparr>,
      sigint_action = SIG_DFL,
      sigtstp_action = SIG_DFL,
      log = []\<rparr>"

text \<open>The two \<open>sigaction\<close> calls at the start of \<open>main\<close>.\<close>

definition install_handlers :: "shell_state \<Rightarrow> shell_state" where
  "install_handlers s =
     s\<lparr>sigint_action := SigHandler Handle_SIGINT True,
       sigtstp_action := SigHandler Handle_SIGTSTP False\<rparr>"

definition status_message :: "last_status \<Rightarrow> string" where
  "status_message st =
     (if exited st then ''exit value '' @ show_int (code st) @ ''\<newline>''
      else if terminated st then ''terminated by signal '' @ show_int (code st) @ ''\<newline>''
      else ''exit status 0\<newline>'')"

text \<open>The chain of \<open>if\<close>s in the body of the loop, on the command that was parsed.\<close>

definition main_dispatch :: "command_line \<Rightarrow> env \<Rightarrow> shell_state \<Rightarrow> outcome" where
  "main_dispatch cmd e s =
     (case argv cmd of
        [] \<Rightarrow> Running s
      | a0 # rest \<Rightarrow>
          if take 1 a0 = ''#'' then Running s
          else if a0 = ''exit'' then ShellExit 0 s
          else if a0 = ''cd'' then
            (case rest of
               a1 # _ \<Rightarrow> Running (emit (Chdir (Some a1)) s)
             | [] \<Rightarrow> Running (emit (Chdir (home e)) s))
          else if a0 = ''status'' then
            Running (emit (Printf (status_message (prev_fg_status s))) s)
          else if is_bg cmd \<and> fg_only s = False then background_process cmd e s
          else foreground_process cmd e s)"

definition parse_input :: "env \<Rightarrow> parse_error + command_line" where
  "parse_input e = parse_line (fgets INPUT_LENGTH (stale_buffer e) (input_line e))"

definition main_iteration :: "env \<Rightarrow> shell_state \<Rightarrow> outcome" where
  "main_iteration e s =
     (let s1 = check_background_processes (poll e) s;
          s2 = emit (Printf '': '') s1
      in case parse_input e of
           Inl _ \<Rightarrow> Crash
         | Inr curr_command \<Rightarrow> main_dispatch curr_command e s2)"

text \<open>
  \<open>while(true)\<close>, run for as many passes as there are environments in the list, or until
  the process is no longer the shell at its loop.
\<close>

fun main_loop :: "env list \<Rightarrow> shell_state \<Rightarrow> outcome" where
  "main_loop [] s = Running s"
| "main_loop (e # es) s =
     (case main_iteration e s of Running s' \<Rightarrow> main_loop es s' | r \<Rightarrow> r)"

text \<open>
  Along the passes of the loop, \<open>fork\<close> never returns a process id that is still in the
  table: what the operating system guarantees for children that have not been waited for.
\<close>

fun fresh_forks :: "env list \<Rightarrow> shell_state \<Rightarrow> bool" where
  "fresh_forks [] s = True"
| "fresh_forks (e # es) s =
     (fork_ret e \<notin> set (background_processes s)
      \<and> (case main_iteration e s of Running s' \<Rightarrow> fresh_forks es s' | _ \<Rightarrow> True))"

definition main :: "env list \<Rightarrow> outcome" where
  "main es = main_loop es (install_handlers initial_state)"

text \<open>
  The life of the shell with its signals: a pass of the loop, or a signal delivered to the
  shell between two passes. A run ends when the process is no longer the shell at its loop.
  A signal that arrives while the shell is blocked in \<open>waitpid\<close> shows in the pass itself:
  when its handler was installed without \<open>SA_RESTART\<close> the call returns \<open>-1\<close> with
  \<open>EINTR\<close>, which is \<open>wait_ret e = - 1\<close>.
\<close>

datatype step = Pass env | Signal signal

fun shell_run :: "step list \<Rightarrow> shell_state \<Rightarrow> outcome" where
  "shell_run [] s = Running s"
| "shell_run (Pass e # rest) s =
     (case main_iteration e s of Running s' \<Rightarrow> shell_run rest s' | r \<Rightarrow> r)"
| "shell_run (Signal sg # rest) s =
     (case deliver sg s of Running s' \<Rightarrow> shell_run rest s' | r \<Rightarrow> r)"

text \<open>A command that the loop hands to \<open>foreground_process\<close> or \<open>background_process\<close>.\<close>

definition is_builtin :: "command_line \<Rightarrow> bool" where
  "is_builtin cmd =
     (case argv cmd of
        [] \<Rightarrow> True
      | a0 # _ \<Rightarrow> take 1 a0 = ''#'' \<or> a0 = ''exit'' \<or> a0 = ''cd'' \<or> a0 = ''status'')"

section \<open>Observations on outcomes\<close>

text \<open>The status with which the forked child, or the shell itself, called \<open>exit\<close>.\<close>

definition child_exit_code :: "outcome \<Rightarrow> int option" where
  "child_exit_code r = (case r of ChildExit n _ \<Rightarrow> Some n | _ \<Rightarrow> None)"

definition shell_exit_code :: "outcome \<Rightarrow> int option" where
  "shell_exit_code r = (case r of ShellExit n _ \<Rightarrow> Some n | _ \<Rightarrow> None)"

text \<open>The state of the child at its successful call of \<open>execvp\<close>.\<close>

definition exec_state :: "outcome \<Rightarrow> shell_state option" where
  "exec_state r = (case r of ChildExec _ s \<Rightarrow> Some s | _ \<Rightarrow> None)"

text \<open>
  The exit-code convention in the words of the specification, for one side of the
  redirection: a path that cannot be opened is status 1, a descriptor that cannot be bound
  to the standard stream \<open>fd\<close> is status 2, no path or no failure is no exit.
\<close>

definition redirect_status :: "env \<Rightarrow> string option \<Rightarrow> oflag list \<Rightarrow> int \<Rightarrow> int option" where
  "redirect_status e path flags fd =
     (case path of
        None \<Rightarrow> None
      | Some p \<Rightarrow>
          if open_ret e p flags = - 1 then Some 1
          else if dup2_ret e (open_ret e p flags) fd = - 1 then Some 2
          else None)"

definition launch_status :: "env \<Rightarrow> string option \<Rightarrow> string option \<Rightarrow> int option" where
  "launch_status e inp outp =
     (case redirect_status e inp [O_RDONLY] 0 of
        Some n \<Rightarrow> Some n
      | None \<Rightarrow>
          (case redirect_status e outp [O_WRONLY, O_CREAT, O_TRUNC] 1 of
             Some n \<Rightarrow> Some n
           | None \<Rightarrow> if exec_ok e then None else Some 2))"

text \<open>No process id is in two slots of the table; 0 marks a free slot.\<close>

definition no_duplicate_pids :: "int list \<Rightarrow> bool" where
  "no_duplicate_pids tbl = distinct (filter (\<lambda>p. p \<noteq> 0) tbl)"

definition is_redir :: "string \<Rightarrow> bool" where
  "is_redir t = (t = ''<'' \<or> t = ''>'')"

text \<open>How many \<open><\<close> and \<open>>\<close> tokens stand in a row at the end of a line.\<close>

definition trailing_redirs :: "string list \<Rightarrow> nat" where
  "trailing_redirs ts = length (takeWhile is_redir (rev ts))"

text \<open>
  The loop runs a command through \<open>foreground_process\<close>: it is no built-in, and it is not
  sent to the background.
\<close>

definition runs_in_foreground :: "command_line \<Rightarrow> shell_state \<Rightarrow> bool" where
  "runs_in_foreground cmd s = (\<not> is_builtin cmd \<and> \<not> (is_bg cmd \<and> \<not> fg_only s))"

text \<open>An environment in which nothing happens, to build examples from.\<close>

definition quiet_env :: env where
  "quiet_env =
     \<lparr>input_line = [], stale_buffer = [], home = None, poll = (\<lambda>pid. (0, 0)),
      fork_ret = - 1, wait_ret = - 1, wait_status = 0,
      open_ret = (\<lambda>path flags. if flags = [O_RDONLY] then 3 else 4),
      dup2_ret = (\<lambda>oldfd newfd. newfd), exec_ok = True\<rparr>"

definition sleep_cmd :: command_line where
  "sleep_cmd = \<lparr>argv = [''sleep'', ''5''], input_file = None, output_file = None, is_bg = False\<rparr>"

definition status_cmd :: command_line where
  "status_cmd = \<lparr>argv = [''status''], input_file = None, output_file = None, is_bg = False\<rparr>"

definition cat_missing_cmd :: command_line where
  "cat_missing_cmd =
     \<lparr>argv = [''cat''], input_file = Some ''missing.txt'', output_file = None, is_bg = False\<rparr>"

definition bad_cmd :: command_line where
  "bad_cmd = \<lparr>argv = [''badprogramxyz''], input_file = None, output_file = None, is_bg = False\<rparr>"

text \<open>A table with every slot taken.\<close>

definition full_table :: "int list" where
  "full_table = [101,102,103,104,105,106,107,108,109,110,111,112,113,114,115,116,117,118,119,120]"

text \<open>
  Three background jobs: 4711 has exited with status 0, 4712 is still running, 4713 was
  killed by signal 9.
\<close>

definition demo_poll :: "int \<Rightarrow> int \<times> int" where
  "demo_poll pid = (if pid = 4711 then (4711, 0) else if pid = 4713 then (4713, 9) else (0, 0))"

definition demo_jobs :: shell_state where
  "demo_jobs = (install_handlers initial_state)
     \<lparr>background_processes := [4711, 0, 4712, 4713, 0, 0, 0, 0, 0, 0, 0, 0, 0, 0, 0, 0, 0, 0, 0, 0]\<rparr>"

section \<open>Basic facts\<close>

lemma emit_fields [simp]:
  "fg_only (emit ev s) = fg_only s"
  "background_processes (emit ev s) = background_processes s"
  "prev_fg_status (emit ev s) = prev_fg_status s"
  "sigint_action (emit ev s) = sigint_action s"
  "sigtstp_action (emit ev s) = sigtstp_action s"
  "log (emit ev s) = log s @ [ev]"
  by (simp_all add: emit_def)

subsection \<open>Status words and decimal numerals\<close>

lemma signaled_not_exited: "WIFSIGNALED st \<Longrightarrow> \<not> WIFEXITED st"
  by (auto simp: WIFSIGNALED_def WIFEXITED_def WTERMSIG_def signed_char_def)

lemma status_words:
  "WIFEXITED 0" "WEXITSTATUS 0 = 0" "WIFSIGNALED 9" "\<not> WIFEXITED 9" "WTERMSIG 9 = 9"
  "WIFSIGNALED 2" "WTERMSIG 2 = 2" "\<not> WIFEXITED 2" "\<not> WIFSIGNALED 0"
  by (simp_all add: WIFSIGNALED_def WIFEXITED_def WEXITSTATUS_def WTERMSIG_def signed_char_def)

lemma show_ints:
  "show_int 0 = ''0''" "show_int 2 = ''2''" "show_int 9 = ''9''"
  "show_int 4711 = ''4711''" "show_int 4713 = ''4713''"
  by (simp_all add: show_int_def digits.simps)

lemma replicate_20: "replicate MAX_BG_PC (0::int) = [0,0,0,0,0,0,0,0,0,0,0,0,0,0,0,0,0,0,0,0]"
  by (simp add: MAX_BG_PC_def eval_nat_numeral)

lemma full_table_nonzero: "\<forall>j < MAX_BG_PC. full_table ! j \<noteq> 0"
  by (simp add: MAX_BG_PC_def full_table_def All_less_Suc eval_nat_numeral del: upt_Suc)

subsection \<open>Adding to the job table\<close>

lemma add_bg_loop_first_free:
  "k \<le> i \<Longrightarrow> i < MAX_BG_PC \<Longrightarrow> tbl ! i = 0 \<Longrightarrow> (\<forall>j. k \<le> j \<and> j < i \<longrightarrow> tbl ! j \<noteq> 0)
     \<Longrightarrow> add_bg_loop k pid tbl = tbl[i := pid]"
proof (induction k pid tbl rule: add_bg_loop.induct)
  case (1 k pid tbl)
  show ?case
  proof (cases "k = i")
    case True
    with "1.prems" show ?thesis by (subst add_bg_loop.simps) simp
  next
    case False
    with "1.prems" have lt: "k < i" and nz: "tbl ! k \<noteq> 0" by auto
    with "1.prems" have "add_bg_loop (Suc k) pid tbl = tbl[i := pid]"
      by (intro "1.IH") auto
    with lt nz "1.prems" show ?thesis by (subst add_bg_loop.simps) simp
  qed
qed

lemma add_bg_loop_full:
  "(\<forall>j. k \<le> j \<and> j < MAX_BG_PC \<longrightarrow> tbl ! j \<noteq> 0) \<Longrightarrow> add_bg_loop k pid tbl = tbl"
proof (induction k pid tbl rule: add_bg_loop.induct)
  case (1 k pid tbl)
  show ?case
  proof (cases "k < MAX_BG_PC")
    case True
    with "1.prems" have nz: "tbl ! k \<noteq> 0" by auto
    with True "1.prems" have "add_bg_loop (Suc k) pid tbl = tbl"
      by (intro "1.IH") auto
    with True nz show ?thesis by (subst add_bg_loop.simps) simp
  next
    case False
    then show ?thesis by (subst add_bg_loop.simps) simp
  qed
qed

lemma add_bg_loop_cases:
  "add_bg_loop 0 pid tbl = tbl \<and> (\<forall>j < MAX_BG_PC. tbl ! j \<noteq> 0)
   \<or> (\<exists>i < MAX_BG_PC. tbl ! i = 0 \<and> (\<forall>j < i. tbl ! j \<noteq> 0) \<and> add_bg_loop 0 pid tbl = tbl[i := pid])"
proof (cases "\<exists>i < MAX_BG_PC. tbl ! i = 0")
  case True
  define i where "i = (LEAST i. i < MAX_BG_PC \<and> tbl ! i = 0)"
  from True have p: "i < MAX_BG_PC \<and> tbl ! i = 0"
    unfolding i_def by (rule LeastI_ex)
  have m: "\<forall>j < i. tbl ! j \<noteq> 0"
  proof (intro allI impI)
    fix j assume "j < i"
    with p have "j < MAX_BG_PC" by simp
    from \<open>j < i\<close> have "\<not> (j < MAX_BG_PC \<and> tbl ! j = 0)"
      unfolding i_def by (rule not_less_Least)
    with \<open>j < MAX_BG_PC\<close> show "tbl ! j \<noteq> 0" by simp
  qed
  with p have "add_bg_loop 0 pid tbl = tbl[i := pid]"
    by (intro add_bg_loop_first_free) auto
  with p m show ?thesis by blast
next
  case False
  then have "add_bg_loop 0 pid tbl = tbl" by (intro add_bg_loop_full) auto
  with False show ?thesis by auto
qed

lemma length_add_bg_loop [simp]: "length (add_bg_loop 0 pid tbl) = length tbl"
  using add_bg_loop_cases [of pid tbl] by auto

lemma filter_split_at:
  assumes "i < length xs"
  shows "filter P xs = filter P (take i xs) @ filter P [xs ! i] @ filter P (drop (Suc i) xs)"
proof -
  from assms have "xs = take i xs @ [xs ! i] @ drop (Suc i) xs"
    by (simp add: id_take_nth_drop)
  then have "filter P xs = filter P (take i xs @ [xs ! i] @ drop (Suc i) xs)" by simp
  then show ?thesis by (simp del: append_take_drop_id)
qed

lemma no_duplicate_clear: "no_duplicate_pids tbl \<Longrightarrow> no_duplicate_pids (tbl[i := 0])"
proof (cases "i < length tbl")
  case True
  assume d: "no_duplicate_pids tbl"
  have a: "filter (\<lambda>p. p \<noteq> 0) (tbl[i := 0]) =
        filter (\<lambda>p. p \<noteq> 0) (take i tbl) @ filter (\<lambda>p. p \<noteq> 0) (drop (Suc i) tbl)"
    using True by (simp add: upd_conv_take_nth_drop)
  from d filter_split_at [OF True, of "\<lambda>p. p \<noteq> 0"]
  have "distinct (filter (\<lambda>p. p \<noteq> 0) (take i tbl) @ filter (\<lambda>p. p \<noteq> 0) [tbl ! i]
          @ filter (\<lambda>p. p \<noteq> 0) (drop (Suc i) tbl))"
    by (simp add: no_duplicate_pids_def)
  then have "distinct (filter (\<lambda>p. p \<noteq> 0) (take i tbl) @ filter (\<lambda>p. p \<noteq> 0) (drop (Suc i) tbl))"
    by auto
  with a show ?thesis by (simp add: no_duplicate_pids_def)
next
  case False
  assume "no_duplicate_pids tbl"
  with False show ?thesis by (simp add: list_update_beyond)
qed

lemma no_duplicate_fill:
  assumes d: "no_duplicate_pids tbl" and fresh: "pid \<notin> set tbl"
    and i: "i < length tbl" and z: "tbl ! i = 0"
  shows "no_duplicate_pids (tbl[i := pid])"
proof -
  have a: "filter (\<lambda>p. p \<noteq> 0) (tbl[i := pid]) =
        filter (\<lambda>p. p \<noteq> 0) (take i tbl) @ filter (\<lambda>p. p \<noteq> 0) [pid]
        @ filter (\<lambda>p. p \<noteq> 0) (drop (Suc i) tbl)"
    using i by (simp add: upd_conv_take_nth_drop)
  from d filter_split_at [OF i, of "\<lambda>p. p \<noteq> 0"] z
  have b: "distinct (filter (\<lambda>p. p \<noteq> 0) (take i tbl) @ filter (\<lambda>p. p \<noteq> 0) (drop (Suc i) tbl))"
    by (simp add: no_duplicate_pids_def)
  from fresh have "pid \<notin> set (take i tbl)" "pid \<notin> set (drop (Suc i) tbl)"
    by (auto dest: in_set_takeD in_set_dropD)
  with a b show ?thesis by (auto simp: no_duplicate_pids_def)
qed

lemma no_duplicate_add:
  assumes "no_duplicate_pids tbl" and "pid \<notin> set tbl" and "length tbl = MAX_BG_PC"
  shows "no_duplicate_pids (add_bg_loop 0 pid tbl)"
  using add_bg_loop_cases [of pid tbl] assms by (auto intro!: no_duplicate_fill)

subsection \<open>The sweep over the job table\<close>

lemma check_slot_fields [simp]:
  "fg_only (check_slot pl i s) = fg_only s"
  "prev_fg_status (check_slot pl i s) = prev_fg_status s"
  "sigint_action (check_slot pl i s) = sigint_action s"
  "sigtstp_action (check_slot pl i s) = sigtstp_action s"
  by (simp_all add: check_slot_def Let_def)

lemma check_slot_table:
  "background_processes (check_slot pl i s) =
     (if background_processes s ! i \<noteq> 0 \<and> 0 < fst (pl (background_processes s ! i))
      then (background_processes s)[i := 0] else background_processes s)"
  by (simp add: check_slot_def Let_def)

lemma check_slot_log:
  "\<exists>evs. log (check_slot pl i s) = log s @ evs
     \<and> (\<forall>p opt. Waitpid p opt \<in> set evs \<longrightarrow> opt = WNOHANG)"
  by (simp add: check_slot_def Let_def)

lemma check_bg_loop_fold:
  "check_bg_loop pl i s = fold (check_slot pl) [i..<MAX_BG_PC] s"
proof (induction pl i s rule: check_bg_loop.induct)
  case (1 pl i s)
  show ?case
  proof (cases "i < MAX_BG_PC")
    case True
    with "1.IH" show ?thesis
      by (subst check_bg_loop.simps) (simp add: upt_conv_Cons)
  next
    case False
    then show ?thesis by (subst check_bg_loop.simps) simp
  qed
qed

lemma fold_check_slot_invariant:
  assumes step: "\<And>i s. P s \<Longrightarrow> P (check_slot pl i s)"
  shows "P s \<Longrightarrow> P (fold (check_slot pl) is s)"
  by (induction "is" arbitrary: s) (auto intro: step)

lemma check_slot_length [simp]:
  "length (background_processes (check_slot pl i s)) = length (background_processes s)"
  by (simp add: check_slot_table)

lemma fold_check_slot_length [simp]:
  "length (background_processes (fold (check_slot pl) is s)) = length (background_processes s)"
  by (induction "is" arbitrary: s) auto

lemma fold_check_slot_fields [simp]:
  "fg_only (fold (check_slot pl) is s) = fg_only s"
  "prev_fg_status (fold (check_slot pl) is s) = prev_fg_status s"
  "sigint_action (fold (check_slot pl) is s) = sigint_action s"
  "sigtstp_action (fold (check_slot pl) is s) = sigtstp_action s"
  by (induction "is" arbitrary: s) auto

lemma fold_check_slot_log:
  "\<exists>evs. log (fold (check_slot pl) is s) = log s @ evs
     \<and> (\<forall>p opt. Waitpid p opt \<in> set evs \<longrightarrow> opt = WNOHANG)"
proof (induction "is" arbitrary: s)
  case Nil
  then show ?case by simp
next
  case (Cons i "is")
  from check_slot_log [of pl i s] obtain evs1 where
    a: "log (check_slot pl i s) = log s @ evs1"
       "\<forall>p opt. Waitpid p opt \<in> set evs1 \<longrightarrow> opt = WNOHANG" by blast
  from Cons.IH [of "check_slot pl i s"] obtain evs2 where
    b: "log (fold (check_slot pl) is (check_slot pl i s)) = log (check_slot pl i s) @ evs2"
       "\<forall>p opt. Waitpid p opt \<in> set evs2 \<longrightarrow> opt = WNOHANG" by blast
  from a b have "log (fold (check_slot pl) (i # is) s) = log s @ (evs1 @ evs2)
     \<and> (\<forall>p opt. Waitpid p opt \<in> set (evs1 @ evs2) \<longrightarrow> opt = WNOHANG)" by auto
  then show ?case by blast
qed

lemma fold_check_slot_no_duplicate:
  "no_duplicate_pids (background_processes s)
     \<Longrightarrow> no_duplicate_pids (background_processes (fold (check_slot pl) is s))"
  by (rule fold_check_slot_invariant) (simp add: check_slot_table no_duplicate_clear)

lemma fold_check_slot_table:
  assumes "n \<le> length (background_processes s)"
  shows "\<forall>j < length (background_processes s).
     background_processes (fold (check_slot pl) [0..<n] s) ! j =
     (if j < n \<and> background_processes s ! j \<noteq> 0 \<and> 0 < fst (pl (background_processes s ! j))
      then 0 else background_processes s ! j)"
  using assms
proof (induction n)
  case 0
  then show ?case by simp
next
  case (Suc n)
  let ?s = "fold (check_slot pl) [0..<n] s"
  from Suc have ih: "\<And>k. k < length (background_processes s) \<Longrightarrow> background_processes ?s ! k =
     (if k < n \<and> background_processes s ! k \<noteq> 0 \<and> 0 < fst (pl (background_processes s ! k))
      then 0 else background_processes s ! k)"
    by simp
  have n: "background_processes ?s ! n = background_processes s ! n"
    using Suc.prems ih [of n] by simp
  have len: "n < length (background_processes ?s)" using Suc.prems by simp
  show ?case
  proof (intro allI impI)
    fix j assume "j < length (background_processes s)"
    with n len ih [of j] show "background_processes (fold (check_slot pl) [0..<Suc n] s) ! j =
     (if j < Suc n \<and> background_processes s ! j \<noteq> 0 \<and> 0 < fst (pl (background_processes s ! j))
      then 0 else background_processes s ! j)"
      by (auto simp: check_slot_table nth_list_update less_Suc_eq)
  qed
qed

lemma check_background_keeps [simp]:
  "sigint_action (check_background_processes pl s) = sigint_action s"
  "prev_fg_status (check_background_processes pl s) = prev_fg_status s"
  "fg_only (check_background_processes pl s) = fg_only s"
  by (simp_all add: check_background_processes_def check_bg_loop_fold)

lemma demo_reap:
  "check_background_processes demo_poll demo_jobs =
     (install_handlers initial_state)
       \<lparr>background_processes := [0, 0, 4712, 0, 0, 0, 0, 0, 0, 0, 0, 0, 0, 0, 0, 0, 0, 0, 0, 0],
        log := [Waitpid 4711 1, Printf ''background pid 4711 is done: exit value 0\<newline>'',
                Waitpid 4712 1,
                Waitpid 4713 1, Printf ''background pid 4713 is done: terminated by signal 9\<newline>'']\<rparr>"
  by (simp add: check_background_processes_def check_bg_loop.simps MAX_BG_PC_def
      check_slot_def demo_poll_def demo_jobs_def Let_def emit_def WNOHANG_def status_words show_ints
      install_handlers_def initial_state_def)

lemma demo_jobs_table:
  "length (background_processes demo_jobs) = MAX_BG_PC"
  "no_duplicate_pids (background_processes demo_jobs)"
  "4720 \<notin> set (background_processes demo_jobs)"
  by (simp_all add: demo_jobs_def MAX_BG_PC_def no_duplicate_pids_def)

subsection \<open>Outcomes of the child and of the shell\<close>

lemma fg_wait_log:
  "\<exists>s' evs. fg_wait pid e s = Running s' \<and> log s' = log s @ Waitpid pid 0 # evs
     \<and> (\<forall>p. Printf (''background pid is '' @ show_int p @ ''\<newline>'') \<notin> set evs)"
  by (simp add: fg_wait_def Let_def)

lemma exec_program_not_running [simp]: "exec_program cmd ok s \<noteq> Running s'"
  by (simp add: exec_program_def Let_def split: list.splits)

lemma bind_run_Running:
  "bind_run r f = Running s' \<longleftrightarrow> (\<exists>s1. r = Running s1 \<and> f s1 = Running s')"
  by (cases r) (simp_all add: bind_run_def)

lemma bind_run_ChildExec:
  "bind_run r f = ChildExec av s' \<longleftrightarrow>
     (r = ChildExec av s' \<or> (\<exists>s1. r = Running s1 \<and> f s1 = ChildExec av s'))"
  by (cases r) (auto simp: bind_run_def)

lemma redirect_not_exec [simp]:
  "fg_redirect_input cmd opn dup s \<noteq> ChildExec av s'"
  "fg_redirect_output cmd opn dup s \<noteq> ChildExec av s'"
  "bg_redirect_input cmd opn dup s \<noteq> ChildExec av s'"
  "bg_redirect_output cmd opn dup s \<noteq> ChildExec av s'"
  by (simp_all add: fg_redirect_input_def fg_redirect_output_def bg_redirect_input_def
      bg_redirect_output_def Let_def split: option.splits)

lemma redirect_keeps_sigint:
  "fg_redirect_input cmd opn dup s = Running s1 \<Longrightarrow> sigint_action s1 = sigint_action s"
  "fg_redirect_output cmd opn dup s = Running s1 \<Longrightarrow> sigint_action s1 = sigint_action s"
  "bg_redirect_input cmd opn dup s = Running s1 \<Longrightarrow> sigint_action s1 = sigint_action s"
  "bg_redirect_output cmd opn dup s = Running s1 \<Longrightarrow> sigint_action s1 = sigint_action s"
  by (auto simp: fg_redirect_input_def fg_redirect_output_def bg_redirect_input_def
      bg_redirect_output_def Let_def split: option.splits if_splits)

lemma exec_program_keeps_sigint:
  "exec_program cmd ok s = ChildExec av s' \<Longrightarrow> sigint_action s' = sigint_action s"
  by (auto simp: exec_program_def Let_def split: list.splits if_splits)

lemma foreground_child_sigint:
  assumes "foreground_process cmd e s = ChildExec av s'"
  shows "sigint_action s' = sigint_action s"
proof -
  from assms obtain s1 s2 where
    "fg_redirect_input cmd (open_ret e) (dup2_ret e) (emit Fork s) = Running s1"
    "fg_redirect_output cmd (open_ret e) (dup2_ret e) s1 = Running s2"
    "exec_program cmd (exec_ok e) s2 = ChildExec av s'"
    by (auto simp: foreground_process_def Let_def bind_run_ChildExec fg_wait_def split: if_splits)
  then show ?thesis
    by (auto dest!: redirect_keeps_sigint exec_program_keeps_sigint)
qed

lemma background_child_sigint:
  assumes "background_process cmd e s = ChildExec av s'"
  shows "sigint_action s' = sigint_action s"
proof -
  from assms obtain s1 s2 where
    "bg_redirect_input cmd (open_ret e) (dup2_ret e) (emit Fork s) = Running s1"
    "bg_redirect_output cmd (open_ret e) (dup2_ret e) s1 = Running s2"
    "exec_program cmd (exec_ok e) s2 = ChildExec av s'"
    by (auto simp: background_process_def Let_def bind_run_ChildExec split: if_splits)
  then show ?thesis
    by (auto dest!: redirect_keeps_sigint exec_program_keeps_sigint)
qed

lemma fg_wait_keeps:
  "fg_wait pid e s = Running s' \<Longrightarrow> sigint_action s' = sigint_action s"
  "fg_wait pid e s = Running s' \<Longrightarrow> background_processes s' = background_processes s"
  "fg_wait pid e s = Running s' \<Longrightarrow> fg_only s' = fg_only s"
  by (auto simp: fg_wait_def Let_def split: if_splits)

lemma foreground_running_keeps:
  assumes "foreground_process cmd e s = Running s'"
  shows "sigint_action s' = sigint_action s" "background_processes s' = background_processes s"
  using assms
  by (auto simp: foreground_process_def Let_def bind_run_Running split: if_splits dest: fg_wait_keeps)

lemma background_running_keeps:
  assumes "background_process cmd e s = Running s'"
  shows "sigint_action s' = sigint_action s" "prev_fg_status s' = prev_fg_status s"
  using assms
  by (auto simp: background_process_def Let_def bind_run_Running add_bg_process_def split: if_splits)

lemma main_dispatch_keeps_sigint:
  assumes "main_dispatch cmd e s = Running s'"
  shows "sigint_action s' = sigint_action s"
  using assms
  by (auto simp: main_dispatch_def split: list.splits if_splits
      dest: foreground_running_keeps background_running_keeps)

lemma main_iteration_keeps_sigint:
  assumes "main_iteration e s = Running s'"
  shows "sigint_action s' = sigint_action s"
  using assms
  by (auto simp: main_iteration_def Let_def split: sum.splits dest!: main_dispatch_keeps_sigint)

lemma child_exit_code_simps [simp]:
  "child_exit_code (Running s) = None"
  "child_exit_code (ShellExit n s) = None"
  "child_exit_code (ChildExit n s) = Some n"
  "child_exit_code (ChildExec av s) = None"
  "child_exit_code Crash = None"
  by (simp_all add: child_exit_code_def)

lemma shell_exit_code_simps [simp]:
  "shell_exit_code (Running s) = None"
  "shell_exit_code (ShellExit n s) = Some n"
  "shell_exit_code (ChildExit n s) = None"
  "shell_exit_code (ChildExec av s) = None"
  "shell_exit_code Crash = None"
  by (simp_all add: shell_exit_code_def)

lemma fg_wait_Running: "\<exists>s'. fg_wait pid e s = Running s'"
  by (simp add: fg_wait_def Let_def)

lemma exec_child_exit:
  assumes "argv cmd \<noteq> []" and "length (argv cmd) \<le> MAX_ARGS"
  shows "child_exit_code (exec_program cmd ok s) = (if ok then None else Some 2)"
  using assms by (cases "argv cmd") (simp_all add: exec_program_def Let_def)

lemma fg_input_cases:
  "(\<exists>s1. fg_redirect_input cmd (open_ret e) (dup2_ret e) s = Running s1
          \<and> redirect_status e (input_file cmd) [O_RDONLY] 0 = None)
   \<or> (\<exists>n s1. fg_redirect_input cmd (open_ret e) (dup2_ret e) s = ChildExit n s1
          \<and> redirect_status e (input_file cmd) [O_RDONLY] 0 = Some n)"
  by (cases "input_file cmd")
     (simp_all add: fg_redirect_input_def redirect_status_def Let_def)

lemma fg_output_cases:
  "(\<exists>s1. fg_redirect_output cmd (open_ret e) (dup2_ret e) s = Running s1
          \<and> redirect_status e (output_file cmd) [O_WRONLY, O_CREAT, O_TRUNC] 1 = None)
   \<or> (\<exists>n s1. fg_redirect_output cmd (open_ret e) (dup2_ret e) s = ChildExit n s1
          \<and> redirect_status e (output_file cmd) [O_WRONLY, O_CREAT, O_TRUNC] 1 = Some n)"
  by (cases "output_file cmd")
     (simp_all add: fg_redirect_output_def redirect_status_def Let_def)

lemma bg_input_cases:
  "(\<exists>s1. bg_redirect_input cmd (open_ret e) (dup2_ret e) s = Running s1
          \<and> redirect_status e (Some (case input_file cmd of Some p \<Rightarrow> p | None \<Rightarrow> ''/dev/null''))
               [O_RDONLY] 0 = None)
   \<or> (\<exists>n s1. bg_redirect_input cmd (open_ret e) (dup2_ret e) s = ChildExit n s1
          \<and> redirect_status e (Some (case input_file cmd of Some p \<Rightarrow> p | None \<Rightarrow> ''/dev/null''))
               [O_RDONLY] 0 = Some n)"
  by (simp add: bg_redirect_input_def redirect_status_def Let_def)

lemma bg_output_cases:
  "(\<exists>s1. bg_redirect_output cmd (open_ret e) (dup2_ret e) s = Running s1
          \<and> redirect_status e (Some (case output_file cmd of Some p \<Rightarrow> p | None \<Rightarrow> ''/dev/null''))
               [O_WRONLY, O_CREAT, O_TRUNC] 1 = None)
   \<or> (\<exists>n s1. bg_redirect_output cmd (open_ret e) (dup2_ret e) s = ChildExit n s1
          \<and> redirect_status e (Some (case output_file cmd of Some p \<Rightarrow> p | None \<Rightarrow> ''/dev/null''))
               [O_WRONLY, O_CREAT, O_TRUNC] 1 = Some n)"
  by (simp add: bg_redirect_output_def redirect_status_def Let_def)

lemma launch_chain:
  assumes r1: "(\<exists>s1. r1 = Running s1 \<and> st1 = None) \<or> (\<exists>n s1. r1 = ChildExit n s1 \<and> st1 = Some n)"
    and r2: "\<And>s1. (\<exists>s2. r2 s1 = Running s2 \<and> st2 = None) \<or> (\<exists>n s2. r2 s1 = ChildExit n s2 \<and> st2 = Some n)"
    and r3: "\<And>s2. child_exit_code (r3 s2) = st3"
  shows "child_exit_code (bind_run r1 (\<lambda>s1. bind_run (r2 s1) r3)) =
     (case st1 of Some n \<Rightarrow> Some n | None \<Rightarrow> (case st2 of Some n \<Rightarrow> Some n | None \<Rightarrow> st3))"
proof -
  from r1 show ?thesis
  proof (elim disjE exE conjE)
    fix s1 assume a: "r1 = Running s1" "st1 = None"
    from r2 [of s1] show ?thesis
    proof (elim disjE exE conjE)
      fix s2 assume "r2 s1 = Running s2" "st2 = None"
      with a r3 [of s2] show ?thesis by (simp add: bind_run_def)
    next
      fix n s2 assume "r2 s1 = ChildExit n s2" "st2 = Some n"
      with a show ?thesis by (simp add: bind_run_def)
    qed
  next
    fix n s1 assume "r1 = ChildExit n s1" "st1 = Some n"
    then show ?thesis by (simp add: bind_run_def)
  qed
qed

lemma foreground_child_status:
  assumes "fork_ret e = 0" and av: "argv cmd \<noteq> []" "length (argv cmd) \<le> MAX_ARGS"
  shows "child_exit_code (foreground_process cmd e s) =
           launch_status e (input_file cmd) (output_file cmd)"
proof -
  from assms have "child_exit_code (foreground_process cmd e s) =
      child_exit_code
        (bind_run (fg_redirect_input cmd (open_ret e) (dup2_ret e) (emit Fork s))
           (\<lambda>s1. bind_run (fg_redirect_output cmd (open_ret e) (dup2_ret e) s1)
                   (exec_program cmd (exec_ok e))))"
    by (simp add: foreground_process_def Let_def)
  also have "\<dots> = launch_status e (input_file cmd) (output_file cmd)"
    unfolding launch_status_def
    by (rule launch_chain [OF fg_input_cases fg_output_cases exec_child_exit [OF av]])
  finally show ?thesis .
qed

lemma background_child_status:
  assumes "fork_ret e = 0" and av: "argv cmd \<noteq> []" "length (argv cmd) \<le> MAX_ARGS"
  shows "child_exit_code (background_process cmd e s) =
           launch_status e
             (Some (case input_file cmd of Some p \<Rightarrow> p | None \<Rightarrow> ''/dev/null''))
             (Some (case output_file cmd of Some p \<Rightarrow> p | None \<Rightarrow> ''/dev/null''))"
proof -
  from assms have "child_exit_code (background_process cmd e s) =
      child_exit_code
        (bind_run (bg_redirect_input cmd (open_ret e) (dup2_ret e) (emit Fork s))
           (\<lambda>s1. bind_run (bg_redirect_output cmd (open_ret e) (dup2_ret e) s1)
                   (exec_program cmd (exec_ok e))))"
    by (simp add: background_process_def Let_def)
  also have "\<dots> = launch_status e
             (Some (case input_file cmd of Some p \<Rightarrow> p | None \<Rightarrow> ''/dev/null''))
             (Some (case output_file cmd of Some p \<Rightarrow> p | None \<Rightarrow> ''/dev/null''))"
    unfolding launch_status_def
    by (rule launch_chain [OF bg_input_cases bg_output_cases exec_child_exit [OF av]])
  finally show ?thesis .
qed

lemma bind_run_no_shell_exit:
  "shell_exit_code r = None \<Longrightarrow> (\<And>s. shell_exit_code (f s) = None)
     \<Longrightarrow> shell_exit_code (bind_run r f) = None"
  by (cases r) (simp_all add: bind_run_def)

lemma stage_shell_exit [simp]:
  "shell_exit_code (fg_redirect_input cmd opn dup s) = None"
  "shell_exit_code (fg_redirect_output cmd opn dup s) = None"
  "shell_exit_code (bg_redirect_input cmd opn dup s) = None"
  "shell_exit_code (bg_redirect_output cmd opn dup s) = None"
  "shell_exit_code (exec_program cmd ok s) = None"
  "shell_exit_code (fg_wait pid e s) = None"
  by (simp_all add: fg_redirect_input_def fg_redirect_output_def bg_redirect_input_def
      bg_redirect_output_def exec_program_def fg_wait_def Let_def split: option.splits list.splits)

lemma foreground_shell_exit:
  "shell_exit_code (foreground_process cmd e s) = (if fork_ret e = - 1 then Some 1 else None)"
proof -
  have "shell_exit_code
          (bind_run (fg_redirect_input cmd (open_ret e) (dup2_ret e) (emit Fork s))
             (\<lambda>s1. bind_run (fg_redirect_output cmd (open_ret e) (dup2_ret e) s1)
                     (exec_program cmd (exec_ok e)))) = None"
    by (intro bind_run_no_shell_exit stage_shell_exit)
  then show ?thesis
    by (simp add: foreground_process_def Let_def)
qed

lemma background_shell_exit:
  "shell_exit_code (background_process cmd e s) = (if fork_ret e = - 1 then Some 1 else None)"
proof -
  have "shell_exit_code
          (bind_run (bg_redirect_input cmd (open_ret e) (dup2_ret e) (emit Fork s))
             (\<lambda>s1. bind_run (bg_redirect_output cmd (open_ret e) (dup2_ret e) s1)
                     (exec_program cmd (exec_ok e)))) = None"
    by (intro bind_run_no_shell_exit stage_shell_exit)
  then show ?thesis
    by (simp add: background_process_def Let_def)
qed

lemma parent_child_exit:
  "fork_ret e \<noteq> 0 \<Longrightarrow> child_exit_code (foreground_process cmd e s) = None"
  "fork_ret e \<noteq> 0 \<Longrightarrow> child_exit_code (background_process cmd e s) = None"
  using fg_wait_Running [of "fork_ret e" e "emit Fork s"]
  by (auto simp: foreground_process_def background_process_def Let_def)

lemma main_dispatch_keeps_status:
  assumes "main_dispatch cmd e s = Running s'" and "\<not> runs_in_foreground cmd s"
  shows "prev_fg_status s' = prev_fg_status s"
  using assms
  by (auto simp: main_dispatch_def runs_in_foreground_def is_builtin_def
      split: list.splits if_splits dest: background_running_keeps)

lemma main_status_run:
  "main [quiet_env\<lparr>input_line := ''status\<newline>''\<rparr>] =
     Running ((install_handlers initial_state)
                \<lparr>log := [Printf '': '', Printf ''exit status 0\<newline>'']\<rparr>)"
  by (simp add: main_def main_iteration_def check_background_processes_def check_bg_loop.simps
      check_slot_def MAX_BG_PC_def parse_input_def parse_line_def fgets_def INPUT_LENGTH_def
      is_delim_def empty_command_def MAX_ARGS_def main_dispatch_def
      status_message_def quiet_env_def install_handlers_def initial_state_def emit_def Let_def)

lemma sleep_child_run:
  "foreground_process sleep_cmd (quiet_env\<lparr>fork_ret := 0\<rparr>) s =
     ChildExec [''sleep'', ''5''] (emit (Execvp ''sleep'' [''sleep'', ''5'']) (emit Fork s))"
  by (simp add: foreground_process_def Let_def bind_run_def fg_redirect_input_def
      fg_redirect_output_def exec_program_def sleep_cmd_def quiet_env_def MAX_ARGS_def)

subsection \<open>The job table along the loop\<close>

lemma set_update_zero: "set (xs[i := (0::int)]) \<subseteq> insert 0 (set xs)"
  by (rule set_update_subset_insert)

lemma check_slot_set:
  "set (background_processes (check_slot pl i s)) \<subseteq> insert 0 (set (background_processes s))"
  using set_update_zero [of "background_processes s" i]
  by (auto simp: check_slot_table)

lemma fold_check_slot_set:
  "set (background_processes (fold (check_slot pl) is s)) \<subseteq> insert 0 (set (background_processes s))"
proof (induction "is" arbitrary: s)
  case Nil
  then show ?case by auto
next
  case (Cons i "is")
  from Cons.IH [of "check_slot pl i s"] check_slot_set [of pl i s] show ?case by auto
qed

lemma main_dispatch_table:
  assumes "main_dispatch cmd e s = Running s'"
  shows "background_processes s' = background_processes s
         \<or> (fork_ret e \<noteq> 0
            \<and> background_processes s' = add_bg_loop 0 (fork_ret e) (background_processes s))"
  using assms
  by (auto simp: main_dispatch_def background_process_def Let_def bind_run_Running
      add_bg_process_def
      split: list.splits if_splits dest: foreground_running_keeps(2))

lemma main_iteration_table:
  assumes run: "main_iteration e s = Running s'"
    and nd: "no_duplicate_pids (background_processes s)"
    and len: "length (background_processes s) = MAX_BG_PC"
    and fresh: "fork_ret e \<notin> set (background_processes s)"
  shows "no_duplicate_pids (background_processes s') \<and> length (background_processes s') = MAX_BG_PC"
proof -
  let ?s1 = "check_background_processes (poll e) s"
  from run obtain c where d: "main_dispatch c e (emit (Printf '': '') ?s1) = Running s'"
    by (auto simp: main_iteration_def Let_def split: sum.splits)
  have t1: "no_duplicate_pids (background_processes ?s1)"
    using nd by (simp add: check_background_processes_def check_bg_loop_fold
        fold_check_slot_no_duplicate)
  have l1: "length (background_processes ?s1) = MAX_BG_PC"
    using len by (simp add: check_background_processes_def check_bg_loop_fold)
  from main_dispatch_table [OF d] show ?thesis
  proof
    assume "background_processes s' = background_processes (emit (Printf '': '') ?s1)"
    with t1 l1 show ?thesis by simp
  next
    assume a: "fork_ret e \<noteq> 0 \<and> background_processes s' =
      add_bg_loop 0 (fork_ret e) (background_processes (emit (Printf '': '') ?s1))"
    have "set (background_processes ?s1) \<subseteq> insert 0 (set (background_processes s))"
      by (simp add: check_background_processes_def check_bg_loop_fold fold_check_slot_set)
    with a fresh have "fork_ret e \<notin> set (background_processes ?s1)" by auto
    with a t1 l1 show ?thesis by (simp add: no_duplicate_add)
  qed
qed

lemma main_loop_table:
  "no_duplicate_pids (background_processes s) \<Longrightarrow> length (background_processes s) = MAX_BG_PC
     \<Longrightarrow> fresh_forks es s \<Longrightarrow> main_loop es s = Running s'
     \<Longrightarrow> no_duplicate_pids (background_processes s') \<and> length (background_processes s') = MAX_BG_PC"
proof (induction es arbitrary: s)
  case Nil
  then show ?case by simp
next
  case (Cons e es)
  from Cons.prems(4) obtain s1 where a: "main_iteration e s = Running s1"
    and b: "main_loop es s1 = Running s'"
    by (auto split: outcome.splits)
  from Cons.prems(3) a have f: "fork_ret e \<notin> set (background_processes s)" "fresh_forks es s1"
    by simp_all
  from main_iteration_table [OF a Cons.prems(1,2) f(1)]
  have "no_duplicate_pids (background_processes s1)" "length (background_processes s1) = MAX_BG_PC"
    by simp_all
  from Cons.IH [OF this f(2) b] show ?case .
qed

lemma demo_launch_run:
  "main_loop [quiet_env\<lparr>input_line := ''sleep 5 &\<newline>'', fork_ret := 4720\<rparr>] demo_jobs =
     Running
       (demo_jobs
           \<lparr>background_processes := [4711, 4720, 4712, 4713, 0, 0, 0, 0, 0, 0, 0, 0, 0, 0, 0, 0, 0, 0, 0, 0],
            log := [Waitpid 4711 1, Waitpid 4712 1, Waitpid 4713 1, Printf '': '', Fork,
                    Printf ''background pid is 4720\<newline>'']\<rparr>)"
  by (simp add: main_iteration_def check_background_processes_def check_bg_loop.simps
      check_slot_def MAX_BG_PC_def WNOHANG_def parse_input_def parse_line_def fgets_def
      INPUT_LENGTH_def is_delim_def empty_command_def MAX_ARGS_def
      main_dispatch_def background_process_def add_bg_process_def add_bg_loop.simps show_int_def
      digits.simps quiet_env_def demo_jobs_def install_handlers_def initial_state_def emit_def
      Let_def)

lemma demo_launch_fresh:
  "fresh_forks [quiet_env\<lparr>input_line := ''sleep 5 &\<newline>'', fork_ret := 4720\<rparr>] demo_jobs"
  using demo_launch_run by (simp add: demo_jobs_def split: outcome.splits)

subsection \<open>Tokens and the parser\<close>

lemma trailing_redirs_Nil [simp]: "trailing_redirs [] = 0"
  by (simp add: trailing_redirs_def)

lemma takeWhile_all: "\<forall>x \<in> set xs. P x \<Longrightarrow> takeWhile P xs = xs"
  by simp

lemma trailing_redirs_all: "\<forall>x \<in> set ts. is_redir x \<Longrightarrow> trailing_redirs ts = length ts"
  by (simp add: trailing_redirs_def takeWhile_all)

lemma takeWhile_snoc:
  "takeWhile P (xs @ [t]) =
     (if \<forall>x \<in> set xs. P x then xs @ (if P t then [t] else []) else takeWhile P xs)"
  by (induction xs) auto

lemma trailing_redirs_Cons:
  "trailing_redirs (t # ts) =
     (if \<forall>x \<in> set ts. is_redir x then (if is_redir t then Suc (length ts) else length ts)
      else trailing_redirs ts)"
  by (simp add: trailing_redirs_def takeWhile_snoc)

lemma trailing_redirs_skip: "\<not> is_redir t \<Longrightarrow> trailing_redirs (t # ts) = trailing_redirs ts"
  by (simp add: trailing_redirs_Cons trailing_redirs_all)

lemma trailing_redirs_pair:
  "is_redir t \<Longrightarrow> even (trailing_redirs (t # f # rest)) = even (trailing_redirs rest)"
  by (simp add: trailing_redirs_Cons trailing_redirs_all)

lemma trailing_redirs_single: "is_redir t \<Longrightarrow> trailing_redirs [t] = 1"
  by (simp add: trailing_redirs_Cons)

lemma trailing_redirs_last:
  assumes "is_redir t" and "pre = [] \<or> \<not> is_redir (last pre)"
  shows "trailing_redirs (pre @ [t]) = 1"
proof (cases pre rule: rev_cases)
  case Nil
  with assms show ?thesis by (simp add: trailing_redirs_def)
next
  case (snoc ys y)
  with assms show ?thesis by (simp add: trailing_redirs_def)
qed

lemma parse_tokens_redir_step:
  assumes "is_redir t"
  shows "\<exists>c'. argv c' = argv c \<and> parse_tokens (t # f # rest) c = parse_tokens rest c'"
proof (cases "t = ''<''")
  case True
  then have "parse_tokens (t # f # rest) c = parse_tokens rest (c\<lparr>input_file := Some f\<rparr>)"
    by simp
  then show ?thesis by (intro exI [of _ "c\<lparr>input_file := Some f\<rparr>"]) simp
next
  case False
  with assms have "parse_tokens (t # f # rest) c = parse_tokens rest (c\<lparr>output_file := Some f\<rparr>)"
    by (simp add: is_redir_def)
  then show ?thesis by (intro exI [of _ "c\<lparr>output_file := Some f\<rparr>"]) simp
qed

lemma parse_tokens_redir_last: "is_redir t \<Longrightarrow> parse_tokens [t] c = Inl NullDeref"
  by (auto simp: is_redir_def)

lemma parse_tokens_plain_step:
  assumes "\<not> is_redir t" and "length (argv c) \<le> MAX_ARGS"
  shows "\<exists>c'. length (argv c') \<le> Suc (length (argv c)) \<and> parse_tokens (t # ts) c = parse_tokens ts c'"
proof (cases "t = ''&''")
  case True
  then have "parse_tokens (t # ts) c = parse_tokens ts (c\<lparr>is_bg := True\<rparr>)" by simp
  then show ?thesis by (intro exI [of _ "c\<lparr>is_bg := True\<rparr>"]) simp
next
  case False
  with assms have "parse_tokens (t # ts) c = parse_tokens ts (c\<lparr>argv := argv c @ [t]\<rparr>)"
    by (simp add: is_redir_def)
  then show ?thesis by (intro exI [of _ "c\<lparr>argv := argv c @ [t]\<rparr>"]) simp
qed

lemma parse_tokens_plain_fail:
  assumes "\<not> is_redir t"
  shows "parse_tokens (t # ts) c = Inl ArgvOverflow \<or> (\<exists>c'. parse_tokens (t # ts) c = parse_tokens ts c')"
  using assms by (auto simp: is_redir_def)

declare parse_tokens.simps [simp del]

lemma parse_tokens_Nil [simp]: "parse_tokens [] c = Inr c"
  by (simp add: parse_tokens.simps)

lemma parse_tokens_dangling:
  "length (argv c) + length ts \<le> Suc MAX_ARGS \<Longrightarrow>
     (odd (trailing_redirs ts) \<longrightarrow> parse_tokens ts c = Inl NullDeref)
     \<and> (even (trailing_redirs ts) \<longrightarrow> (\<exists>c'. parse_tokens ts c = Inr c'))"
proof (induction ts arbitrary: c rule: length_induct)
  case (1 ts)
  show ?case
  proof (cases ts)
    case Nil
    then show ?thesis by simp
  next
    case (Cons t ts1)
    show ?thesis
    proof (cases "is_redir t")
      case True
      show ?thesis
      proof (cases ts1)
        case Nil
        with True Cons show ?thesis
          by (simp add: trailing_redirs_single parse_tokens_redir_last)
      next
        case (Cons f rest)
        from parse_tokens_redir_step [OF True, of c f rest] obtain c' where
          c': "argv c' = argv c" "parse_tokens (t # f # rest) c = parse_tokens rest c'" by blast
        from "1.prems" \<open>ts = t # ts1\<close> Cons c' have "length (argv c') + length rest \<le> Suc MAX_ARGS"
          by simp
        moreover have "length rest < length ts" using \<open>ts = t # ts1\<close> Cons by simp
        ultimately have "(odd (trailing_redirs rest) \<longrightarrow> parse_tokens rest c' = Inl NullDeref)
          \<and> (even (trailing_redirs rest) \<longrightarrow> (\<exists>c''. parse_tokens rest c' = Inr c''))"
          using "1.IH" by blast
        with True c' \<open>ts = t # ts1\<close> Cons show ?thesis
          by (simp add: trailing_redirs_pair)
      qed
    next
      case False
      from "1.prems" Cons have "length (argv c) \<le> MAX_ARGS" by simp
      from parse_tokens_plain_step [OF False this, of ts1] obtain c' where
        c': "length (argv c') \<le> Suc (length (argv c))" "parse_tokens (t # ts1) c = parse_tokens ts1 c'"
        by blast
      from "1.prems" Cons c' have "length (argv c') + length ts1 \<le> Suc MAX_ARGS" by simp
      moreover have "length ts1 < length ts" using Cons by simp
      ultimately have "(odd (trailing_redirs ts1) \<longrightarrow> parse_tokens ts1 c' = Inl NullDeref)
          \<and> (even (trailing_redirs ts1) \<longrightarrow> (\<exists>c''. parse_tokens ts1 c' = Inr c''))"
        using "1.IH" by blast
      with False c' Cons show ?thesis
        by (simp add: trailing_redirs_skip)
    qed
  qed
qed

lemma parse_tokens_NullDeref_odd:
  "parse_tokens ts c = Inl NullDeref \<Longrightarrow> odd (trailing_redirs ts)"
proof (induction ts arbitrary: c rule: length_induct)
  case (1 ts)
  show ?case
  proof (cases ts)
    case Nil
    with "1.prems" show ?thesis by simp
  next
    case (Cons t ts1)
    show ?thesis
    proof (cases "is_redir t")
      case True
      show ?thesis
      proof (cases ts1)
        case Nil
        with True Cons show ?thesis by (simp add: trailing_redirs_single)
      next
        case (Cons f rest)
        from parse_tokens_redir_step [OF True, of c f rest] obtain c' where
          c': "parse_tokens (t # f # rest) c = parse_tokens rest c'" by blast
        with "1.prems" \<open>ts = t # ts1\<close> Cons have "parse_tokens rest c' = Inl NullDeref" by simp
        moreover have "length rest < length ts" using \<open>ts = t # ts1\<close> Cons by simp
        ultimately have "odd (trailing_redirs rest)" using "1.IH" by blast
        with True \<open>ts = t # ts1\<close> Cons show ?thesis by (simp add: trailing_redirs_pair)
      qed
    next
      case False
      from parse_tokens_plain_fail [OF False, of ts1 c] "1.prems" Cons
      obtain c' where c': "parse_tokens (t # ts1) c = parse_tokens ts1 c'" by auto
      with "1.prems" Cons have "parse_tokens ts1 c' = Inl NullDeref" by simp
      moreover have "length ts1 < length ts" using Cons by simp
      ultimately have "odd (trailing_redirs ts1)" using "1.IH" by blast
      with False Cons show ?thesis by (simp add: trailing_redirs_skip)
    qed
  qed
qed

lemma parse_tokens_odd_fails:
  "odd (trailing_redirs ts) \<Longrightarrow> \<exists>err. parse_tokens ts c = Inl err"
proof (induction ts arbitrary: c rule: length_induct)
  case (1 ts)
  show ?case
  proof (cases ts)
    case Nil
    with "1.prems" show ?thesis by simp
  next
    case (Cons t ts1)
    show ?thesis
    proof (cases "is_redir t")
      case True
      show ?thesis
      proof (cases ts1)
        case Nil
        with True Cons show ?thesis by (simp add: parse_tokens_redir_last)
      next
        case (Cons f rest)
        from parse_tokens_redir_step [OF True, of c f rest] obtain c' where
          c': "parse_tokens (t # f # rest) c = parse_tokens rest c'" by blast
        from "1.prems" True \<open>ts = t # ts1\<close> Cons have "odd (trailing_redirs rest)"
          by (simp add: trailing_redirs_pair)
        moreover have "length rest < length ts" using \<open>ts = t # ts1\<close> Cons by simp
        ultimately have "\<exists>err. parse_tokens rest c' = Inl err" using "1.IH" by blast
        with c' \<open>ts = t # ts1\<close> Cons show ?thesis by simp
      qed
    next
      case False
      from "1.prems" False Cons have o: "odd (trailing_redirs ts1)"
        by (simp add: trailing_redirs_skip)
      from parse_tokens_plain_fail [OF False, of ts1 c] show ?thesis
      proof
        assume "parse_tokens (t # ts1) c = Inl ArgvOverflow"
        with Cons show ?thesis by simp
      next
        assume "\<exists>c'. parse_tokens (t # ts1) c = parse_tokens ts1 c'"
        then obtain c' where c': "parse_tokens (t # ts1) c = parse_tokens ts1 c'" by blast
        have "length ts1 < length ts" using Cons by simp
        with o have "\<exists>err. parse_tokens ts1 c' = Inl err" using "1.IH" by blast
        with c' Cons show ?thesis by simp
      qed
    qed
  qed
qed

lemma tokens_cat_lt:
  "strtok_all [] (fgets INPUT_LENGTH (stale_buffer (quiet_env\<lparr>input_line := ''cat <\<newline>''\<rparr>))
                    (input_line (quiet_env\<lparr>input_line := ''cat <\<newline>''\<rparr>))) = [''cat'', ''<'']"
  by (simp add: fgets_def INPUT_LENGTH_def is_delim_def quiet_env_def)

subsection \<open>Runs with signals\<close>

lemma status_word_127: "\<not> WIFEXITED 127" "\<not> WIFSIGNALED 127"
  by (simp_all add: WIFSIGNALED_def WIFEXITED_def WTERMSIG_def signed_char_def)

lemma handle_SIGTSTP_fields [simp]:
  "sigint_action (handle_SIGTSTP s) = sigint_action s"
  "sigtstp_action (handle_SIGTSTP s) = sigtstp_action s"
  "prev_fg_status (handle_SIGTSTP s) = prev_fg_status s"
  "background_processes (handle_SIGTSTP s) = background_processes s"
  by (simp_all add: handle_SIGTSTP_def)

lemma deliver_keeps_actions:
  assumes "deliver sg s = Running s'"
  shows "sigint_action s' = sigint_action s \<and> sigtstp_action s' = sigtstp_action s"
  using assms
  by (auto simp: deliver_def run_handler_def handle_SIGINT_def
      split: sigdisp.splits signal.splits handler.splits)

lemma deliver_not_child [simp]:
  "deliver sg s \<noteq> ChildExec av s'"
  by (simp add: deliver_def split: sigdisp.splits signal.splits)

lemma fg_wait_keeps_sigtstp:
  "fg_wait pid e s = Running s' \<Longrightarrow> sigtstp_action s' = sigtstp_action s"
  by (auto simp: fg_wait_def Let_def split: if_splits)

lemma main_dispatch_keeps_sigtstp:
  assumes "main_dispatch cmd e s = Running s'"
  shows "sigtstp_action s' = sigtstp_action s"
  using assms
  by (auto simp: main_dispatch_def foreground_process_def background_process_def Let_def
      bind_run_Running add_bg_process_def
      split: list.splits if_splits dest: fg_wait_keeps_sigtstp)

lemma check_background_keeps_sigtstp [simp]:
  "sigtstp_action (check_background_processes pl s) = sigtstp_action s"
  by (simp add: check_background_processes_def check_bg_loop_fold)

lemma main_iteration_keeps_sigtstp:
  assumes "main_iteration e s = Running s'"
  shows "sigtstp_action s' = sigtstp_action s"
  using assms
  by (auto simp: main_iteration_def Let_def split: sum.splits dest!: main_dispatch_keeps_sigtstp)

lemma main_dispatch_child_sigint:
  assumes "main_dispatch cmd e s = ChildExec av s'"
  shows "sigint_action s' = sigint_action s"
  using assms
  by (auto simp: main_dispatch_def split: list.splits if_splits
      dest: foreground_child_sigint background_child_sigint)

lemma main_iteration_child_sigint:
  assumes "main_iteration e s = ChildExec av s'"
  shows "sigint_action s' = sigint_action s"
  using assms
  by (auto simp: main_iteration_def Let_def split: sum.splits dest!: main_dispatch_child_sigint)

lemma shell_run_keeps_actions:
  "shell_run steps s = Running s'
     \<Longrightarrow> sigint_action s' = sigint_action s \<and> sigtstp_action s' = sigtstp_action s"
proof (induction steps s rule: shell_run.induct)
  case (1 s)
  then show ?case by simp
next
  case (2 e rest s)
  from "2.prems" obtain s1 where a: "main_iteration e s = Running s1"
    and b: "shell_run rest s1 = Running s'"
    by (auto split: outcome.splits)
  from "2.IH" [OF a b] main_iteration_keeps_sigint [OF a] main_iteration_keeps_sigtstp [OF a]
  show ?case by simp
next
  case (3 sg rest s)
  from "3.prems" obtain s1 where a: "deliver sg s = Running s1"
    and b: "shell_run rest s1 = Running s'"
    by (auto split: outcome.splits)
  from "3.IH" [OF a b] deliver_keeps_actions [OF a] show ?case by simp
qed

lemma shell_run_child_sigint:
  "shell_run steps s = ChildExec av s' \<Longrightarrow> sigint_action s' = sigint_action s"
proof (induction steps s rule: shell_run.induct)
  case (1 s)
  then show ?case by simp
next
  case (2 e rest s)
  show ?case
  proof (cases "main_iteration e s")
    case (Running s1)
    with "2.prems" have b: "shell_run rest s1 = ChildExec av s'" by simp
    from "2.IH" [OF Running b] main_iteration_keeps_sigint [OF Running] show ?thesis by simp
  next
    case (ChildExec av1 s1)
    with "2.prems" main_iteration_child_sigint [OF ChildExec] show ?thesis by simp
  qed (use "2.prems" in simp_all)
next
  case (3 sg rest s)
  show ?case
  proof (cases "deliver sg s")
    case (Running s1)
    with "3.prems" have b: "shell_run rest s1 = ChildExec av s'" by simp
    from "3.IH" [OF Running b] deliver_keeps_actions [OF Running] show ?thesis by simp
  qed (use "3.prems" in simp_all)
qed

lemma shell_run_append:
  "shell_run (xs @ ys) s = (case shell_run xs s of Running s' \<Rightarrow> shell_run ys s' | r \<Rightarrow> r)"
  by (induction xs s rule: shell_run.induct) (auto split: outcome.splits)

lemma deliver_handled:
  "sigint_action s = SigHandler Handle_SIGINT r \<Longrightarrow> deliver SIGINT s = Running s"
  "sigtstp_action s = SigHandler Handle_SIGTSTP r \<Longrightarrow> deliver SIGTSTP s = Running (handle_SIGTSTP s)"
  by (simp_all add: deliver_def disposition_def run_handler_def handle_SIGINT_def)

lemma installed:
  "sigint_action (install_handlers initial_state) = SigHandler Handle_SIGINT True"
  "sigtstp_action (install_handlers initial_state) = SigHandler Handle_SIGTSTP False"
  by (simp_all add: install_handlers_def)

lemma bind_run_Killed:
  "bind_run r f = Killed n \<longleftrightarrow> (r = Killed n \<or> (\<exists>s1. r = Running s1 \<and> f s1 = Killed n))"
  by (cases r) (auto simp: bind_run_def)

lemma stage_not_killed [simp]:
  "fg_redirect_input cmd opn dup s \<noteq> Killed n"
  "fg_redirect_output cmd opn dup s \<noteq> Killed n"
  "bg_redirect_input cmd opn dup s \<noteq> Killed n"
  "bg_redirect_output cmd opn dup s \<noteq> Killed n"
  "exec_program cmd ok s \<noteq> Killed n"
  "fg_wait pid e s \<noteq> Killed n"
  by (simp_all add: fg_redirect_input_def fg_redirect_output_def bg_redirect_input_def
      bg_redirect_output_def exec_program_def fg_wait_def Let_def split: option.splits list.splits)

lemma main_iteration_not_killed: "main_iteration e s \<noteq> Killed n"
  by (auto simp: main_iteration_def main_dispatch_def foreground_process_def
      background_process_def Let_def bind_run_Killed split: sum.splits list.splits if_splits)

lemma shell_run_not_killed:
  "sigint_action s = SigHandler Handle_SIGINT r \<Longrightarrow> shell_run steps s \<noteq> Killed n"
proof (induction steps s rule: shell_run.induct)
  case (1 s)
  then show ?case by simp
next
  case (2 e rest s)
  show ?case
  proof (cases "main_iteration e s")
    case (Running s1)
    with "2.IH" [OF Running] "2.prems" main_iteration_keeps_sigint [OF Running]
    show ?thesis by simp
  next
    case (Killed m)
    with main_iteration_not_killed [of e s m] show ?thesis by simp
  qed simp_all
next
  case (3 sg rest s)
  show ?case
  proof (cases "deliver sg s")
    case (Running s1)
    with "3.IH" [OF Running] "3.prems" deliver_keeps_actions [OF Running]
    show ?thesis by simp
  next
    case (Killed m)
    with "3.prems" show ?thesis
      by (auto simp: deliver_def disposition_def split: sigdisp.splits signal.splits)
  qed simp_all
qed

lemma main_loop_as_run: "main_loop es s = shell_run (map Pass es) s"
  by (induction es arbitrary: s) (auto split: outcome.splits)

lemma main_as_run: "main es = shell_run (map Pass es) (install_handlers initial_state)"
  by (simp add: main_def main_loop_as_run)

lemma foreground_only_status_run:
  "shell_run [Signal SIGTSTP, Pass (quiet_env\<lparr>input_line := ''status\<newline>''\<rparr>)]
     (install_handlers initial_state) =
     Running ((install_handlers initial_state)
                \<lparr>fg_only := True,
                 log := [Write msg_enter, Printf '': '', Printf ''exit status 0\<newline>'']\<rparr>)"
  by (simp add: deliver_def disposition_def run_handler_def handle_SIGTSTP_def
      main_iteration_def check_background_processes_def check_bg_loop.simps
      check_slot_def MAX_BG_PC_def parse_input_def parse_line_def fgets_def INPUT_LENGTH_def
      is_delim_def empty_command_def parse_tokens.simps(2) MAX_ARGS_def main_dispatch_def
      status_message_def quiet_env_def install_handlers_def initial_state_def emit_def Let_def)

lemma foreground_only_child_run:
  "shell_run [Signal SIGTSTP,
              Pass (quiet_env\<lparr>input_line := ''sleep 5 &\<newline>'', fork_ret := 0\<rparr>)]
     (install_handlers initial_state) =
     ChildExec [''sleep'', ''5'']
       ((install_handlers initial_state)
          \<lparr>fg_only := True,
           log := [Write msg_enter, Printf '': '', Fork, Execvp ''sleep'' [''sleep'', ''5'']]\<rparr>)"
  by (simp add: deliver_def disposition_def run_handler_def handle_SIGTSTP_def
      main_iteration_def check_background_processes_def check_bg_loop.simps
      check_slot_def MAX_BG_PC_def parse_input_def parse_line_def fgets_def INPUT_LENGTH_def
      is_delim_def empty_command_def parse_tokens.simps(2) MAX_ARGS_def main_dispatch_def
      foreground_process_def bind_run_def fg_redirect_input_def fg_redirect_output_def
      exec_program_def quiet_env_def install_handlers_def initial_state_def emit_def Let_def)

lemma tokens_cat_lt_nul:
  "strtok_all []
     (fgets INPUT_LENGTH
        (stale_buffer (quiet_env\<lparr>input_line := ''cat < '' @ [CHR 0x00] @ ''x\<newline>''\<rparr>))
        (input_line (quiet_env\<lparr>input_line := ''cat < '' @ [CHR 0x00] @ ''x\<newline>''\<rparr>)))
   = [''cat'', ''<'']"
  by (simp add: fgets_def INPUT_LENGTH_def is_delim_def quiet_env_def)

section \<open>Foreground execution\<close>

text \<open>
  When the blocking wait returns the child's termination, \<open>foreground_process\<close> forks
  once and waits, with options 0, for exactly the process id that \<open>fork\<close> returned; the
  status word is classified and stored in \<open>prev_fg_status\<close> with all three fields
  overwritten: killed by a signal, with the signal's number, or exited, with the exit code.
  "terminated by signal N" is printed at once exactly when the classification is killed by
  a signal; an exit is stored and prints nothing.
\<close>

lemma foreground_process_wait_returned:
  assumes "0 < fork_ret e" and "wait_ret e = fork_ret e"
    and "WIFEXITED (wait_status e) \<or> WIFSIGNALED (wait_status e)"
  shows "foreground_process cmd e s =
     Running
       (s\<lparr>prev_fg_status :=
            (if WIFSIGNALED (wait_status e)
             then \<lparr>exited = False, terminated = True, code = WTERMSIG (wait_status e)\<rparr>
             else \<lparr>exited = True, terminated = False, code = WEXITSTATUS (wait_status e)\<rparr>),
          log := log s @ [Fork, Waitpid (fork_ret e) 0]
                 @ (if WIFSIGNALED (wait_status e)
                    then [Printf (''terminated by signal '' @ show_int (WTERMSIG (wait_status e))
                                  @ ''\<newline>'')]
                    else [])\<rparr>)"
proof (cases "WIFSIGNALED (wait_status e)")
  case True
  with assms show ?thesis
    by (simp add: foreground_process_def fg_wait_def Let_def emit_def)
next
  case False
  with assms have "WIFEXITED (wait_status e)" by simp
  with False assms show ?thesis
    by (simp add: foreground_process_def fg_wait_def Let_def emit_def)
qed

text \<open>
  Claim C1. The shell does not always block until the child has terminated, and what it
  stores is not always a classification of the child's termination. \<open>main\<close> installs
  \<open>handle_SIGTSTP\<close> with \<open>sa_flags = 0\<close>, so without \<open>SA_RESTART\<close> (the handler of
  SIGINT has it): a SIGTSTP that arrives during the foreground wait makes \<open>waitpid\<close> return
  \<open>-1\<close> while the child still runs, and \<open>fgStatus\<close> is left as it was, never written.
  \<open>foreground_process\<close> prints the error of "wait", does not wait again, and classifies that
  status word all the same. When the word reads 2 the shell stores "killed by signal 2" over
  the previous record and prints "terminated by signal 2" for a child that no signal has
  killed; when it reads 0 the shell stores an exit with code 0 for a child that has not
  exited. Either way the shell goes back to its prompt with the child still in the
  foreground, and nothing ever waits for that child again. (What the handler itself does,
  the flip of \<open>fg_only\<close> and its banner, is \<open>deliver SIGTSTP\<close>, apart from what
  \<open>foreground_process\<close> does.)
\<close>

theorem foreground_wait_interrupted:
  "sigtstp_action (install_handlers initial_state) = SigHandler Handle_SIGTSTP False
   \<and> foreground_process sleep_cmd
        (quiet_env\<lparr>fork_ret := 4711, wait_ret := - 1, wait_status := 2\<rparr>)
        (install_handlers initial_state) =
      Running
        ((install_handlers initial_state)
           \<lparr>prev_fg_status := \<lparr>exited = False, terminated = True, code = 2\<rparr>,
            log := [Fork, Waitpid 4711 0, Perror ''wait'',
                    Printf ''terminated by signal 2\<newline>'']\<rparr>)
   \<and> foreground_process sleep_cmd
        (quiet_env\<lparr>fork_ret := 4711, wait_ret := - 1, wait_status := 0\<rparr>)
        (install_handlers initial_state) =
      Running
        ((install_handlers initial_state)
           \<lparr>prev_fg_status := \<lparr>exited = True, terminated = False, code = 0\<rparr>,
            log := [Fork, Waitpid 4711 0, Perror ''wait'']\<rparr>)"
  by (simp add: foreground_process_def fg_wait_def Let_def emit_def status_words show_ints
      install_handlers_def initial_state_def)

section \<open>Dispatch\<close>

text \<open>
  A command that is no built-in runs through \<open>background_process\<close> exactly when its
  \<open>is_bg\<close> flag is set and \<open>fg_only\<close> is false, and through \<open>foreground_process\<close> in
  every other case. With \<open>fg_only\<close> true the shell forks, calls the blocking wait for that
  child, and prints no "background pid is" line, whatever the flag says.
\<close>

lemma main_dispatch_routing:
  assumes "\<not> is_builtin cmd"
  shows "main_dispatch cmd e s =
           (if is_bg cmd \<and> \<not> fg_only s then background_process cmd e s
            else foreground_process cmd e s)
         \<and> (fg_only s \<and> 0 < fork_ret e \<longrightarrow>
              (\<exists>s' evs. main_dispatch cmd e s = Running s'
                 \<and> log s' = log s @ Fork # Waitpid (fork_ret e) 0 # evs
                 \<and> (\<forall>p. Printf (''background pid is '' @ show_int p @ ''\<newline>'') \<notin> set evs)))"
proof -
  from assms have disp: "main_dispatch cmd e s =
           (if is_bg cmd \<and> \<not> fg_only s then background_process cmd e s
            else foreground_process cmd e s)"
    by (auto simp: is_builtin_def main_dispatch_def split: list.splits)
  have "\<exists>s' evs. main_dispatch cmd e s = Running s'
                 \<and> log s' = log s @ Fork # Waitpid (fork_ret e) 0 # evs
                 \<and> (\<forall>p. Printf (''background pid is '' @ show_int p @ ''\<newline>'') \<notin> set evs)"
    if "fg_only s" "0 < fork_ret e"
  proof -
    from that disp have "main_dispatch cmd e s = fg_wait (fork_ret e) e (emit Fork s)"
      by (simp add: foreground_process_def Let_def)
    with fg_wait_log [of "fork_ret e" e "emit Fork s"] show ?thesis by auto
  qed
  with disp show ?thesis by blast
qed

text \<open>
  Claim C2. The routing is as claimed, but a command routed to the foreground does not
  always block the prompt until it completes. The shell below takes a SIGTSTP and is in
  foreground-only mode; it then reads \<open>sleep 5 &\<close>, which it runs through
  \<open>foreground_process\<close>, with no "background pid is" line. During the wait a second
  SIGTSTP arrives: its handler was installed with \<open>sa_flags = 0\<close>, so \<open>waitpid\<close>
  returns \<open>-1\<close> while the child still runs. The shell prints the error of "wait" and does
  not wait again: the next pass prints the prompt and runs \<open>status\<close> while the command is
  not completed. (A run delivers signals between passes, so the banner of the second
  SIGTSTP is logged after the pass that it interrupts. The status word is never written on
  this path; here it reads 127, which is neither an exit nor a death by signal, so the
  stored record stays as it was.)
\<close>

theorem foreground_only_wait_interrupted:
  "shell_run
     [Signal SIGTSTP,
      Pass (quiet_env\<lparr>input_line := ''sleep 5 &\<newline>'', fork_ret := 4711, wait_ret := - 1,
                       wait_status := 127\<rparr>),
      Signal SIGTSTP,
      Pass (quiet_env\<lparr>input_line := ''status\<newline>''\<rparr>)]
     (install_handlers initial_state) =
   Running
     ((install_handlers initial_state)
        \<lparr>log := [Write msg_enter,
                 Printf '': '', Fork, Waitpid 4711 0, Perror ''wait'',
                 Write msg_exit,
                 Printf '': '', Printf ''exit status 0\<newline>'']\<rparr>)"
  by (simp add: deliver_def disposition_def run_handler_def handle_SIGTSTP_def
      main_iteration_def check_background_processes_def check_bg_loop.simps
      check_slot_def MAX_BG_PC_def parse_input_def parse_line_def fgets_def INPUT_LENGTH_def
      is_delim_def empty_command_def parse_tokens.simps(2) MAX_ARGS_def main_dispatch_def
      foreground_process_def fg_wait_def status_word_127 status_message_def
      quiet_env_def install_handlers_def initial_state_def emit_def Let_def)

section \<open>Background execution\<close>

text \<open>
  Claim C3. A command run in the background makes the shell fork, print
  "background pid is P" and return to the loop with no wait at all. P goes into the first
  slot of the table that holds 0; when none of the \<open>MAX_BG_PC\<close> slots holds 0 the table
  stays as it is and nothing is reported. The table keeps its length. \<open>prev_fg_status\<close> is
  not touched, neither by the launch nor by the sweep that later reports the job's end.
\<close>

theorem background_execution:
  assumes "0 < fork_ret e"
  shows "background_process cmd e s =
      Running
        (s\<lparr>background_processes := add_bg_loop 0 (fork_ret e) (background_processes s),
           log := log s @ [Fork, Printf (''background pid is '' @ show_int (fork_ret e)
                                         @ ''\<newline>'')]\<rparr>)
    \<and> (\<forall>i < MAX_BG_PC.
          background_processes s ! i = 0 \<and> (\<forall>j < i. background_processes s ! j \<noteq> 0) \<longrightarrow>
          add_bg_loop 0 (fork_ret e) (background_processes s) =
            (background_processes s)[i := fork_ret e])
    \<and> ((\<forall>j < MAX_BG_PC. background_processes s ! j \<noteq> 0) \<longrightarrow>
          add_bg_loop 0 (fork_ret e) (background_processes s) = background_processes s)
    \<and> length (add_bg_loop 0 (fork_ret e) (background_processes s)) = length (background_processes s)
    \<and> (\<forall>s'. background_process cmd e s = Running s' \<longrightarrow> prev_fg_status s' = prev_fg_status s)
    \<and> prev_fg_status (check_background_processes pl s) = prev_fg_status s"
proof -
  from assms have run: "background_process cmd e s =
      Running
        (s\<lparr>background_processes := add_bg_loop 0 (fork_ret e) (background_processes s),
           log := log s @ [Fork, Printf (''background pid is '' @ show_int (fork_ret e)
                                         @ ''\<newline>'')]\<rparr>)"
    by (simp add: background_process_def add_bg_process_def emit_def Let_def)
  have free: "\<forall>i < MAX_BG_PC.
          background_processes s ! i = 0 \<and> (\<forall>j < i. background_processes s ! j \<noteq> 0) \<longrightarrow>
          add_bg_loop 0 (fork_ret e) (background_processes s) =
            (background_processes s)[i := fork_ret e]"
    by (auto intro: add_bg_loop_first_free)
  have full: "(\<forall>j < MAX_BG_PC. background_processes s ! j \<noteq> 0) \<longrightarrow>
          add_bg_loop 0 (fork_ret e) (background_processes s) = background_processes s"
    by (auto intro: add_bg_loop_full)
  have keep: "\<forall>s'. background_process cmd e s = Running s' \<longrightarrow> prev_fg_status s' = prev_fg_status s"
    using run by auto
  have reap: "prev_fg_status (check_background_processes pl s) = prev_fg_status s"
    by (simp add: check_background_processes_def check_bg_loop_fold)
  from run free full keep reap show ?thesis by simp
qed

theorem background_execution_witness:
  "0 < fork_ret (quiet_env\<lparr>fork_ret := 4711\<rparr>)
   \<and> background_process (sleep_cmd\<lparr>is_bg := True\<rparr>) (quiet_env\<lparr>fork_ret := 4711\<rparr>)
        (install_handlers initial_state) =
      Running
        ((install_handlers initial_state)
           \<lparr>background_processes := [4711,0,0,0,0,0,0,0,0,0,0,0,0,0,0,0,0,0,0,0],
            log := [Fork, Printf ''background pid is 4711\<newline>'']\<rparr>)
   \<and> background_process (sleep_cmd\<lparr>is_bg := True\<rparr>) (quiet_env\<lparr>fork_ret := 4711\<rparr>)
        ((install_handlers initial_state)\<lparr>background_processes := full_table\<rparr>) =
      Running
        ((install_handlers initial_state)
           \<lparr>background_processes := full_table,
            log := [Fork, Printf ''background pid is 4711\<newline>'']\<rparr>)"
proof -
  let ?e = "quiet_env\<lparr>fork_ret := 4711\<rparr>"
  let ?c = "sleep_cmd\<lparr>is_bg := True\<rparr>"
  have pos: "0 < fork_ret ?e" by simp
  have z: "(0::nat) < MAX_BG_PC" by (simp add: MAX_BG_PC_def)
  from background_execution [OF pos, of ?c "install_handlers initial_state"] z
  have a: "background_process ?c ?e (install_handlers initial_state) =
      Running
        ((install_handlers initial_state)
           \<lparr>background_processes := [4711,0,0,0,0,0,0,0,0,0,0,0,0,0,0,0,0,0,0,0],
            log := [Fork, Printf ''background pid is 4711\<newline>'']\<rparr>)"
    by (simp add: install_handlers_def initial_state_def replicate_20 show_ints)
  from background_execution [OF pos, of ?c "(install_handlers initial_state)\<lparr>background_processes := full_table\<rparr>"]
    full_table_nonzero
  have b: "background_process ?c ?e ((install_handlers initial_state)\<lparr>background_processes := full_table\<rparr>) =
      Running
        ((install_handlers initial_state)
           \<lparr>background_processes := full_table,
            log := [Fork, Printf ''background pid is 4711\<newline>'']\<rparr>)"
    by (simp add: install_handlers_def initial_state_def show_ints)
  from pos a b show ?thesis by simp
qed

section \<open>The sweep for finished background jobs\<close>

text \<open>
  Claim C4. Every pass of the loop starts with the sweep, which visits the slots in order.
  A slot holding 0 is skipped with no effect. For any other slot the shell calls
  \<open>waitpid\<close> with \<open>WNOHANG\<close>, never a blocking wait. The slot is set to 0 exactly when that
  call returns a process id (a positive result), and then the line
  "background pid P is done: exit value E" or "background pid P is done: terminated by
  signal S" is printed, by the status word; when the call returns 0 or fails, the slot
  keeps its process id. A table without duplicates stays so through the sweep, and through
  the recording of a new job whose process id is not already in the table; so, starting
  from the empty table of the initial state, no pass of the loop ever puts a process id in
  two slots, as long as \<open>fork\<close> returns no process id that is still in the table.
\<close>

theorem background_reaper:
  assumes len: "length (background_processes s) = MAX_BG_PC"
  shows
    "main_iteration e s =
       (case parse_input e of
          Inl err \<Rightarrow> Crash
        | Inr c \<Rightarrow> main_dispatch c e (emit (Printf '': '') (check_background_processes (poll e) s)))
     \<and> check_background_processes pl s = fold (check_slot pl) [0..<MAX_BG_PC] s
     \<and> (\<forall>i < MAX_BG_PC.
          background_processes (check_background_processes pl s) ! i =
            (if background_processes s ! i \<noteq> 0 \<and> 0 < fst (pl (background_processes s ! i))
             then 0 else background_processes s ! i))
     \<and> (\<exists>evs. log (check_background_processes pl s) = log s @ evs
           \<and> (\<forall>p opt. Waitpid p opt \<in> set evs \<longrightarrow> opt = WNOHANG))
     \<and> (background_processes t ! i = 0 \<longrightarrow> check_slot pl i t = t)
     \<and> (background_processes t ! i \<noteq> 0 \<and> fst (pl (background_processes t ! i)) \<le> 0 \<longrightarrow>
          check_slot pl i t = emit (Waitpid (background_processes t ! i) WNOHANG) t)
     \<and> (background_processes t ! i \<noteq> 0 \<and> 0 < fst (pl (background_processes t ! i))
          \<and> WIFEXITED (snd (pl (background_processes t ! i))) \<longrightarrow>
          check_slot pl i t =
            t\<lparr>background_processes := (background_processes t)[i := 0],
              log := log t @
                [Waitpid (background_processes t ! i) WNOHANG,
                 Printf (''background pid '' @ show_int (fst (pl (background_processes t ! i)))
                         @ '' is done: exit value ''
                         @ show_int (WEXITSTATUS (snd (pl (background_processes t ! i))))
                         @ ''\<newline>'')]\<rparr>)
     \<and> (background_processes t ! i \<noteq> 0 \<and> 0 < fst (pl (background_processes t ! i))
          \<and> WIFSIGNALED (snd (pl (background_processes t ! i))) \<longrightarrow>
          check_slot pl i t =
            t\<lparr>background_processes := (background_processes t)[i := 0],
              log := log t @
                [Waitpid (background_processes t ! i) WNOHANG,
                 Printf (''background pid '' @ show_int (fst (pl (background_processes t ! i)))
                         @ '' is done: terminated by signal ''
                         @ show_int (WTERMSIG (snd (pl (background_processes t ! i))))
                         @ ''\<newline>'')]\<rparr>)
     \<and> (no_duplicate_pids (background_processes s) \<longrightarrow>
          no_duplicate_pids (background_processes (check_background_processes pl s)))
     \<and> (no_duplicate_pids (background_processes s) \<and> pid \<notin> set (background_processes s) \<longrightarrow>
          no_duplicate_pids (background_processes (add_bg_process pid s)))
     \<and> (no_duplicate_pids (background_processes s) \<and> fresh_forks es s
          \<and> main_loop es s = Running s' \<longrightarrow>
          no_duplicate_pids (background_processes s')
          \<and> length (background_processes s') = MAX_BG_PC)
     \<and> no_duplicate_pids (background_processes (install_handlers initial_state))
     \<and> length (background_processes (install_handlers initial_state)) = MAX_BG_PC"
proof -
  have iter: "main_iteration e s =
       (case parse_input e of
          Inl err \<Rightarrow> Crash
        | Inr c \<Rightarrow> main_dispatch c e (emit (Printf '': '') (check_background_processes (poll e) s)))"
    by (simp add: main_iteration_def Let_def)
  have fold: "check_background_processes pl s = fold (check_slot pl) [0..<MAX_BG_PC] s"
    by (simp add: check_background_processes_def check_bg_loop_fold)
  have tbl: "\<forall>i < MAX_BG_PC.
          background_processes (check_background_processes pl s) ! i =
            (if background_processes s ! i \<noteq> 0 \<and> 0 < fst (pl (background_processes s ! i))
             then 0 else background_processes s ! i)"
    using fold_check_slot_table [of MAX_BG_PC s pl] len by (simp add: fold)
  have lg: "\<exists>evs. log (check_background_processes pl s) = log s @ evs
           \<and> (\<forall>p opt. Waitpid p opt \<in> set evs \<longrightarrow> opt = WNOHANG)"
    unfolding fold by (rule fold_check_slot_log)
  have s0: "background_processes t ! i = 0 \<longrightarrow> check_slot pl i t = t"
    by (simp add: check_slot_def)
  have s1: "background_processes t ! i \<noteq> 0 \<and> fst (pl (background_processes t ! i)) \<le> 0 \<longrightarrow>
          check_slot pl i t = emit (Waitpid (background_processes t ! i) WNOHANG) t"
    by (simp add: check_slot_def Let_def)
  have s2: "background_processes t ! i \<noteq> 0 \<and> 0 < fst (pl (background_processes t ! i))
          \<and> WIFEXITED (snd (pl (background_processes t ! i))) \<longrightarrow>
          check_slot pl i t =
            t\<lparr>background_processes := (background_processes t)[i := 0],
              log := log t @
                [Waitpid (background_processes t ! i) WNOHANG,
                 Printf (''background pid '' @ show_int (fst (pl (background_processes t ! i)))
                         @ '' is done: exit value ''
                         @ show_int (WEXITSTATUS (snd (pl (background_processes t ! i))))
                         @ ''\<newline>'')]\<rparr>"
    by (simp add: check_slot_def Let_def emit_def)
  have s3: "background_processes t ! i \<noteq> 0 \<and> 0 < fst (pl (background_processes t ! i))
          \<and> WIFSIGNALED (snd (pl (background_processes t ! i))) \<longrightarrow>
          check_slot pl i t =
            t\<lparr>background_processes := (background_processes t)[i := 0],
              log := log t @
                [Waitpid (background_processes t ! i) WNOHANG,
                 Printf (''background pid '' @ show_int (fst (pl (background_processes t ! i)))
                         @ '' is done: terminated by signal ''
                         @ show_int (WTERMSIG (snd (pl (background_processes t ! i))))
                         @ ''\<newline>'')]\<rparr>"
    by (auto simp: check_slot_def Let_def emit_def dest: signaled_not_exited)
  have d1: "no_duplicate_pids (background_processes s) \<longrightarrow>
          no_duplicate_pids (background_processes (check_background_processes pl s))"
    unfolding fold by (auto intro: fold_check_slot_no_duplicate)
  have d2: "no_duplicate_pids (background_processes s) \<and> pid \<notin> set (background_processes s) \<longrightarrow>
          no_duplicate_pids (background_processes (add_bg_process pid s))"
    using len by (auto simp: add_bg_process_def intro: no_duplicate_add)
  have d3: "no_duplicate_pids (background_processes s) \<and> fresh_forks es s
          \<and> main_loop es s = Running s' \<longrightarrow>
          no_duplicate_pids (background_processes s')
          \<and> length (background_processes s') = MAX_BG_PC"
    using len main_loop_table [of s es s'] by blast
  have d4: "no_duplicate_pids (background_processes (install_handlers initial_state))
     \<and> length (background_processes (install_handlers initial_state)) = MAX_BG_PC"
    by (simp add: install_handlers_def initial_state_def no_duplicate_pids_def)
  from iter fold tbl lg s0 s1 s2 s3 d1 d2 d3 d4 show ?thesis by blast
qed

theorem background_reaper_witness:
  "length (background_processes demo_jobs) = MAX_BG_PC
   \<and> no_duplicate_pids (background_processes demo_jobs)
   \<and> check_slot demo_poll 0 demo_jobs =
       demo_jobs
         \<lparr>background_processes := [0, 0, 4712, 4713, 0, 0, 0, 0, 0, 0, 0, 0, 0, 0, 0, 0, 0, 0, 0, 0],
          log := [Waitpid 4711 WNOHANG, Printf ''background pid 4711 is done: exit value 0\<newline>'']\<rparr>
   \<and> check_slot demo_poll 1 demo_jobs = demo_jobs
   \<and> check_slot demo_poll 2 demo_jobs = emit (Waitpid 4712 WNOHANG) demo_jobs
   \<and> check_slot demo_poll 3 demo_jobs =
       demo_jobs
         \<lparr>background_processes := [4711, 0, 4712, 0, 0, 0, 0, 0, 0, 0, 0, 0, 0, 0, 0, 0, 0, 0, 0, 0],
          log := [Waitpid 4713 WNOHANG,
                  Printf ''background pid 4713 is done: terminated by signal 9\<newline>'']\<rparr>
   \<and> check_background_processes demo_poll demo_jobs =
       (install_handlers initial_state)
         \<lparr>background_processes := [0, 0, 4712, 0, 0, 0, 0, 0, 0, 0, 0, 0, 0, 0, 0, 0, 0, 0, 0, 0],
          log := [Waitpid 4711 1, Printf ''background pid 4711 is done: exit value 0\<newline>'',
                  Waitpid 4712 1,
                  Waitpid 4713 1,
                  Printf ''background pid 4713 is done: terminated by signal 9\<newline>'']\<rparr>
   \<and> no_duplicate_pids (background_processes (check_background_processes demo_poll demo_jobs))
   \<and> no_duplicate_pids (background_processes (add_bg_process 4720 demo_jobs))
   \<and> fresh_forks [quiet_env\<lparr>input_line := ''sleep 5 &\<newline>'', fork_ret := 4720\<rparr>] demo_jobs
   \<and> main_loop [quiet_env\<lparr>input_line := ''sleep 5 &\<newline>'', fork_ret := 4720\<rparr>] demo_jobs =
       Running
         (demo_jobs
           \<lparr>background_processes := [4711, 4720, 4712, 4713, 0, 0, 0, 0, 0, 0, 0, 0, 0, 0, 0, 0, 0, 0, 0, 0],
            log := [Waitpid 4711 1, Waitpid 4712 1, Waitpid 4713 1, Printf '': '', Fork,
                    Printf ''background pid is 4720\<newline>'']\<rparr>)
   \<and> no_duplicate_pids [4711, 4720, 4712, 4713, 0, 0, 0, 0, 0, 0, 0, 0, 0, 0, 0, 0, 0, 0, 0, 0]"
proof -
  let ?e = "quiet_env\<lparr>input_line := ''sleep 5 &\<newline>'', fork_ret := 4720\<rparr>"
  let ?r = "demo_jobs
           \<lparr>background_processes := [4711, 4720, 4712, 4713, 0, 0, 0, 0, 0, 0, 0, 0, 0, 0, 0, 0, 0, 0, 0, 0],
            log := [Waitpid 4711 1, Waitpid 4712 1, Waitpid 4713 1, Printf '': '', Fork,
                    Printf ''background pid is 4720\<newline>'']\<rparr>"
  note len = demo_jobs_table(1)
  have s0: "check_slot demo_poll 0 demo_jobs =
       demo_jobs
         \<lparr>background_processes := [0, 0, 4712, 4713, 0, 0, 0, 0, 0, 0, 0, 0, 0, 0, 0, 0, 0, 0, 0, 0],
          log := [Waitpid 4711 WNOHANG, Printf ''background pid 4711 is done: exit value 0\<newline>'']\<rparr>"
    using background_reaper [OF len, where t = demo_jobs and i = 0 and pl = demo_poll
        and pid = 4720 and e = quiet_env
        and es = "[?e]" and s' = ?r]
    by (simp add: demo_jobs_def demo_poll_def status_words show_ints install_handlers_def
        initial_state_def)
  have s1: "check_slot demo_poll 1 demo_jobs = demo_jobs"
    using background_reaper [OF len, where t = demo_jobs and i = 1 and pl = demo_poll
        and pid = 4720 and e = quiet_env
        and es = "[?e]" and s' = ?r]
    by (simp add: demo_jobs_def)
  have s2: "check_slot demo_poll 2 demo_jobs = emit (Waitpid 4712 WNOHANG) demo_jobs"
    using background_reaper [OF len, where t = demo_jobs and i = 2 and pl = demo_poll
        and pid = 4720 and e = quiet_env
        and es = "[?e]" and s' = ?r]
    by (simp add: demo_jobs_def demo_poll_def)
  have s3: "check_slot demo_poll 3 demo_jobs =
       demo_jobs
         \<lparr>background_processes := [4711, 0, 4712, 0, 0, 0, 0, 0, 0, 0, 0, 0, 0, 0, 0, 0, 0, 0, 0, 0],
          log := [Waitpid 4713 WNOHANG,
                  Printf ''background pid 4713 is done: terminated by signal 9\<newline>'']\<rparr>"
    using background_reaper [OF len, where t = demo_jobs and i = 3 and pl = demo_poll
        and pid = 4720 and e = quiet_env
        and es = "[?e]" and s' = ?r]
    by (simp add: demo_jobs_def demo_poll_def status_words show_ints install_handlers_def
        initial_state_def)
  note th = background_reaper [OF len, where pl = demo_poll and pid = 4720 and t = demo_jobs
        and i = 0 and e = quiet_env
        and es = "[?e]" and s' = ?r]
  note tail = th [THEN conjunct2, THEN conjunct2, THEN conjunct2, THEN conjunct2,
      THEN conjunct2, THEN conjunct2, THEN conjunct2, THEN conjunct2]
  from tail [THEN conjunct1] demo_jobs_table(2)
  have d1: "no_duplicate_pids (background_processes (check_background_processes demo_poll demo_jobs))"
    by blast
  from tail [THEN conjunct2, THEN conjunct1] demo_jobs_table(2,3)
  have d2: "no_duplicate_pids (background_processes (add_bg_process 4720 demo_jobs))"
    by blast
  from tail [THEN conjunct2, THEN conjunct2, THEN conjunct1] demo_jobs_table(2)
    demo_launch_fresh demo_launch_run
  have "no_duplicate_pids (background_processes ?r)"
    by blast
  then have d3: "no_duplicate_pids [4711, 4720, 4712, 4713, 0, 0, 0, 0, 0, 0, 0, 0, 0, 0, 0, 0, 0, 0, 0, 0]"
    by simp
  note d = d1 d2 d3
  from len demo_jobs_table(2) s0 s1 s2 s3 demo_reap d demo_launch_run demo_launch_fresh
  show ?thesis by simp
qed

section \<open>Exit codes of a failed launch\<close>

text \<open>
  Claim C5. In the forked child, a path that cannot be opened ends the child with status 1,
  and a \<open>dup2\<close> that fails or an \<open>execvp\<close> that returns ends it with status 2; this is
  \<open>launch_status\<close>, on the paths the child opens (in the background, the null device
  where no path was given). These are exit statuses of the child only: the process that
  \<open>fork\<close> returned a process id to calls \<open>exit\<close> on no path, whatever the child's end.
  The shell itself exits exactly when \<open>fork\<close> returned \<open>-1\<close>.
\<close>

theorem exit_code_convention:
  assumes "argv cmd \<noteq> []" and "length (argv cmd) \<le> MAX_ARGS"
  shows
    "(fork_ret e = 0 \<longrightarrow>
        child_exit_code (foreground_process cmd e s) =
          launch_status e (input_file cmd) (output_file cmd)
        \<and> child_exit_code (background_process cmd e s) =
          launch_status e
            (Some (case input_file cmd of Some p \<Rightarrow> p | None \<Rightarrow> ''/dev/null''))
            (Some (case output_file cmd of Some p \<Rightarrow> p | None \<Rightarrow> ''/dev/null'')))
     \<and> (fork_ret e \<noteq> 0 \<longrightarrow>
          child_exit_code (foreground_process cmd e s) = None
          \<and> child_exit_code (background_process cmd e s) = None)
     \<and> shell_exit_code (foreground_process cmd e s) = (if fork_ret e = - 1 then Some 1 else None)
     \<and> shell_exit_code (background_process cmd e s) = (if fork_ret e = - 1 then Some 1 else None)
     \<and> (\<not> is_builtin cmd \<longrightarrow>
          shell_exit_code (main_dispatch cmd e s) = (if fork_ret e = - 1 then Some 1 else None))"
proof -
  have "\<not> is_builtin cmd \<longrightarrow>
          shell_exit_code (main_dispatch cmd e s) = (if fork_ret e = - 1 then Some 1 else None)"
    by (auto simp: is_builtin_def main_dispatch_def foreground_shell_exit background_shell_exit
        split: list.splits)
  with assms show ?thesis
    by (simp add: foreground_child_status background_child_status parent_child_exit
        foreground_shell_exit background_shell_exit)
qed

theorem exit_code_convention_witness:
  "argv cat_missing_cmd \<noteq> [] \<and> length (argv cat_missing_cmd) \<le> MAX_ARGS
   \<and> child_exit_code
        (foreground_process cat_missing_cmd
           (quiet_env\<lparr>fork_ret := 0, open_ret := (\<lambda>path flags. - 1)\<rparr>) (install_handlers initial_state))
       = Some 1
   \<and> child_exit_code
        (background_process cat_missing_cmd
           (quiet_env\<lparr>fork_ret := 0, dup2_ret := (\<lambda>oldfd newfd. - 1)\<rparr>) (install_handlers initial_state))
       = Some 2
   \<and> child_exit_code
        (foreground_process bad_cmd
           (quiet_env\<lparr>fork_ret := 0, exec_ok := False\<rparr>) (install_handlers initial_state))
       = Some 2
   \<and> \<not> is_builtin bad_cmd
   \<and> shell_exit_code
        (main_dispatch bad_cmd
           (quiet_env\<lparr>fork_ret := 4711, wait_ret := 4711, wait_status := 512\<rparr>)
           (install_handlers initial_state))
       = None
   \<and> shell_exit_code (main_dispatch bad_cmd quiet_env (install_handlers initial_state)) = Some 1"
proof -
  have c: "argv cat_missing_cmd \<noteq> []" "length (argv cat_missing_cmd) \<le> MAX_ARGS"
    by (simp_all add: cat_missing_cmd_def MAX_ARGS_def)
  have b: "argv bad_cmd \<noteq> []" "length (argv bad_cmd) \<le> MAX_ARGS" "\<not> is_builtin bad_cmd"
    by (simp_all add: bad_cmd_def MAX_ARGS_def is_builtin_def)
  from exit_code_convention [OF c, of "quiet_env\<lparr>fork_ret := 0, open_ret := (\<lambda>path flags. - 1)\<rparr>"
      "install_handlers initial_state"]
  have x1: "child_exit_code
        (foreground_process cat_missing_cmd
           (quiet_env\<lparr>fork_ret := 0, open_ret := (\<lambda>path flags. - 1)\<rparr>) (install_handlers initial_state))
       = Some 1"
    by (simp add: launch_status_def redirect_status_def cat_missing_cmd_def)
  from exit_code_convention [OF c, of "quiet_env\<lparr>fork_ret := 0, dup2_ret := (\<lambda>oldfd newfd. - 1)\<rparr>"
      "install_handlers initial_state"]
  have x2: "child_exit_code
        (background_process cat_missing_cmd
           (quiet_env\<lparr>fork_ret := 0, dup2_ret := (\<lambda>oldfd newfd. - 1)\<rparr>) (install_handlers initial_state))
       = Some 2"
    by (simp add: launch_status_def redirect_status_def cat_missing_cmd_def quiet_env_def)
  from exit_code_convention [OF b(1,2), of "quiet_env\<lparr>fork_ret := 0, exec_ok := False\<rparr>"
      "install_handlers initial_state"]
  have x3: "child_exit_code
        (foreground_process bad_cmd
           (quiet_env\<lparr>fork_ret := 0, exec_ok := False\<rparr>) (install_handlers initial_state))
       = Some 2"
    by (simp add: launch_status_def redirect_status_def bad_cmd_def)
  from exit_code_convention [OF b(1,2),
      of "quiet_env\<lparr>fork_ret := 4711, wait_ret := 4711, wait_status := 512\<rparr>"
      "install_handlers initial_state"] b(3)
  have x4: "shell_exit_code
        (main_dispatch bad_cmd
           (quiet_env\<lparr>fork_ret := 4711, wait_ret := 4711, wait_status := 512\<rparr>)
           (install_handlers initial_state))
       = None"
    by simp
  from exit_code_convention [OF b(1,2), of quiet_env "install_handlers initial_state"] b(3)
  have x5: "shell_exit_code (main_dispatch bad_cmd quiet_env (install_handlers initial_state)) = Some 1"
    by (simp add: quiet_env_def)
  from c b(3) x1 x2 x3 x4 x5 show ?thesis by simp
qed

section \<open>Redirection of a background child\<close>

text \<open>
  Claim C6. The child of a background command opens, read-only, the input path it was
  given or else \<open>/dev/null\<close>, and binds the descriptor to standard input; then it opens,
  write-only with create and truncate and mode 0644, the output path it was given or else
  \<open>/dev/null\<close>, and binds the descriptor to standard output; then it calls \<open>execvp\<close>.
\<close>

theorem background_null_device:
  assumes "fork_ret e = 0"
    and "src = (case input_file cmd of Some p \<Rightarrow> p | None \<Rightarrow> ''/dev/null'')"
    and "tgt = (case output_file cmd of Some p \<Rightarrow> p | None \<Rightarrow> ''/dev/null'')"
    and "open_ret e src [O_RDONLY] \<noteq> - 1"
    and "dup2_ret e (open_ret e src [O_RDONLY]) 0 \<noteq> - 1"
    and "open_ret e tgt [O_WRONLY, O_CREAT, O_TRUNC] \<noteq> - 1"
    and "dup2_ret e (open_ret e tgt [O_WRONLY, O_CREAT, O_TRUNC]) 1 \<noteq> - 1"
  shows "background_process cmd e s =
           exec_program cmd (exec_ok e)
             (s\<lparr>log := log s @
                  [Fork,
                   Open src [O_RDONLY] None,
                   Dup2 (open_ret e src [O_RDONLY]) 0,
                   Open tgt [O_WRONLY, O_CREAT, O_TRUNC] (Some mode_0644),
                   Dup2 (open_ret e tgt [O_WRONLY, O_CREAT, O_TRUNC]) 1]\<rparr>)
         \<and> mode_0644 = 4 + 8 * (4 + 8 * 6)"
  using assms
  by (simp add: background_process_def Let_def bind_run_def bg_redirect_input_def
      bg_redirect_output_def emit_def mode_0644_def)

theorem background_null_device_witness:
  "fork_ret (quiet_env\<lparr>fork_ret := 0\<rparr>) = 0
   \<and> open_ret (quiet_env\<lparr>fork_ret := 0\<rparr>) ''/dev/null'' [O_RDONLY] = 3
   \<and> open_ret (quiet_env\<lparr>fork_ret := 0\<rparr>) ''/dev/null'' [O_WRONLY, O_CREAT, O_TRUNC] = 4
   \<and> dup2_ret (quiet_env\<lparr>fork_ret := 0\<rparr>) 3 0 = 0
   \<and> dup2_ret (quiet_env\<lparr>fork_ret := 0\<rparr>) 4 1 = 1
   \<and> background_process (sleep_cmd\<lparr>is_bg := True\<rparr>) (quiet_env\<lparr>fork_ret := 0\<rparr>)
        (install_handlers initial_state) =
      ChildExec [''sleep'', ''5'']
        ((install_handlers initial_state)
           \<lparr>log := [Fork,
                    Open ''/dev/null'' [O_RDONLY] None, Dup2 3 0,
                    Open ''/dev/null'' [O_WRONLY, O_CREAT, O_TRUNC] (Some 420), Dup2 4 1,
                    Execvp ''sleep'' [''sleep'', ''5'']]\<rparr>)
   \<and> background_process (cat_missing_cmd\<lparr>output_file := Some ''out.txt''\<rparr>) (quiet_env\<lparr>fork_ret := 0\<rparr>)
        (install_handlers initial_state) =
      ChildExec [''cat'']
        ((install_handlers initial_state)
           \<lparr>log := [Fork,
                    Open ''missing.txt'' [O_RDONLY] None, Dup2 3 0,
                    Open ''out.txt'' [O_WRONLY, O_CREAT, O_TRUNC] (Some 420), Dup2 4 1,
                    Execvp ''cat'' [''cat'']]\<rparr>)"
proof -
  let ?e = "quiet_env\<lparr>fork_ret := 0\<rparr>"
  have o: "fork_ret ?e = 0"
    "open_ret ?e ''/dev/null'' [O_RDONLY] = 3"
    "open_ret ?e ''/dev/null'' [O_WRONLY, O_CREAT, O_TRUNC] = 4"
    "dup2_ret ?e 3 0 = 0" "dup2_ret ?e 4 1 = 1"
    by (simp_all add: quiet_env_def)
  have a: "background_process (sleep_cmd\<lparr>is_bg := True\<rparr>) ?e (install_handlers initial_state) =
      ChildExec [''sleep'', ''5'']
        ((install_handlers initial_state)
           \<lparr>log := [Fork,
                    Open ''/dev/null'' [O_RDONLY] None, Dup2 3 0,
                    Open ''/dev/null'' [O_WRONLY, O_CREAT, O_TRUNC] (Some 420), Dup2 4 1,
                    Execvp ''sleep'' [''sleep'', ''5'']]\<rparr>)"
    using background_null_device [of ?e "''/dev/null''" "sleep_cmd\<lparr>is_bg := True\<rparr>" "''/dev/null''"
        "install_handlers initial_state"]
    by (simp add: quiet_env_def sleep_cmd_def exec_program_def MAX_ARGS_def emit_def
        install_handlers_def initial_state_def)
  have b: "background_process (cat_missing_cmd\<lparr>output_file := Some ''out.txt''\<rparr>) ?e
        (install_handlers initial_state) =
      ChildExec [''cat'']
        ((install_handlers initial_state)
           \<lparr>log := [Fork,
                    Open ''missing.txt'' [O_RDONLY] None, Dup2 3 0,
                    Open ''out.txt'' [O_WRONLY, O_CREAT, O_TRUNC] (Some 420), Dup2 4 1,
                    Execvp ''cat'' [''cat'']]\<rparr>)"
    using background_null_device [of ?e "''missing.txt''" "cat_missing_cmd\<lparr>output_file := Some ''out.txt''\<rparr>"
        "''out.txt''" "install_handlers initial_state"]
    by (simp add: quiet_env_def cat_missing_cmd_def exec_program_def MAX_ARGS_def emit_def
        install_handlers_def initial_state_def)
  from o a b show ?thesis by simp
qed

section \<open>SIGINT\<close>

text \<open>
  The child does not restore the default disposition of SIGINT before it replaces its
  program image: at its call of \<open>execvp\<close> the disposition is still the shell's handler.
\<close>

theorem sigint_counterexample:
  "map_option sigint_action
     (exec_state (foreground_process sleep_cmd (quiet_env\<lparr>fork_ret := 0\<rparr>)
                    (install_handlers initial_state)))
   = Some (SigHandler Handle_SIGINT True)"
  by (simp add: foreground_process_def Let_def bind_run_def fg_redirect_input_def
      fg_redirect_output_def exec_program_def sleep_cmd_def quiet_env_def exec_state_def
      install_handlers_def initial_state_def MAX_ARGS_def)

text \<open>
  Claim C7, as amended. Take any run of the shell from the state in which \<open>main\<close> has
  installed its handlers: passes of the loop and deliveries of SIGINT and SIGTSTP, in any
  order, so also in foreground-only mode (the runs of \<open>main\<close> are those made of passes
  only). If the run is back at the loop, SIGINT delivered
  there runs the empty handler and the shell goes on in the same state; no run ends with
  the shell killed by a signal. If the run ends in a forked child at its call of
  \<open>execvp\<close>, the disposition of SIGINT there is still the shell's handler: neither
  \<open>foreground_process\<close> nor \<open>background_process\<close> changes it in the child, from whatever
  state they are called. It is \<open>execvp\<close> that resets a caught signal to the default action,
  under which SIGINT kills the process. So the program the child runs can be interrupted.
\<close>

theorem sigint_handling:
  "(shell_run steps (install_handlers initial_state) = Running s \<longrightarrow>
      deliver SIGINT s = Running s
      \<and> shell_run (steps @ [Signal SIGINT]) (install_handlers initial_state) = Running s)
   \<and> shell_run steps (install_handlers initial_state) \<noteq> Killed n
   \<and> (shell_run steps (install_handlers initial_state) = ChildExec av s' \<longrightarrow>
        sigint_action s' = SigHandler Handle_SIGINT True
        \<and> after_exec (sigint_action s') = SIG_DFL)
   \<and> (foreground_process cmd e t = ChildExec av t' \<or> background_process cmd e t = ChildExec av t'
        \<longrightarrow> sigint_action t' = sigint_action t)
   \<and> (sigint_action t = sigint_action (install_handlers initial_state) \<longrightarrow>
        deliver SIGINT t = Running t)
   \<and> (sigint_action t = SIG_DFL \<longrightarrow> deliver SIGINT t = Killed (signo SIGINT))
   \<and> main es = shell_run (map Pass es) (install_handlers initial_state)"
proof -
  let ?i = "install_handlers initial_state"
  have a: "shell_run steps ?i = Running s \<longrightarrow>
      deliver SIGINT s = Running s \<and> shell_run (steps @ [Signal SIGINT]) ?i = Running s"
  proof
    assume r: "shell_run steps ?i = Running s"
    from shell_run_keeps_actions [OF r]
    have "sigint_action s = SigHandler Handle_SIGINT True" by (simp add: installed)
    from deliver_handled(1) [OF this] have d: "deliver SIGINT s = Running s" .
    with r show "deliver SIGINT s = Running s \<and> shell_run (steps @ [Signal SIGINT]) ?i = Running s"
      by (simp add: shell_run_append)
  qed
  have b: "shell_run steps ?i \<noteq> Killed n"
    by (rule shell_run_not_killed [OF installed(1)])
  have c: "shell_run steps ?i = ChildExec av s' \<longrightarrow>
        sigint_action s' = SigHandler Handle_SIGINT True \<and> after_exec (sigint_action s') = SIG_DFL"
    by (auto dest!: shell_run_child_sigint simp: installed after_exec_def)
  have d: "foreground_process cmd e t = ChildExec av t' \<or> background_process cmd e t = ChildExec av t'
        \<longrightarrow> sigint_action t' = sigint_action t"
    by (auto dest: foreground_child_sigint background_child_sigint)
  have f: "sigint_action t = sigint_action ?i \<longrightarrow> deliver SIGINT t = Running t"
    by (simp add: installed deliver_handled(1))
  have g: "sigint_action t = SIG_DFL \<longrightarrow> deliver SIGINT t = Killed (signo SIGINT)"
    by (simp add: deliver_def disposition_def)
  from a b c d f g main_as_run [of es] show ?thesis by blast
qed

theorem sigint_handling_witness:
  "shell_run [Signal SIGTSTP, Pass (quiet_env\<lparr>input_line := ''status\<newline>''\<rparr>)]
     (install_handlers initial_state) =
     Running ((install_handlers initial_state)
                \<lparr>fg_only := True,
                 log := [Write msg_enter, Printf '': '', Printf ''exit status 0\<newline>'']\<rparr>)
   \<and> deliver SIGINT
        ((install_handlers initial_state)
           \<lparr>fg_only := True,
            log := [Write msg_enter, Printf '': '', Printf ''exit status 0\<newline>'']\<rparr>) =
       Running ((install_handlers initial_state)
                  \<lparr>fg_only := True,
                   log := [Write msg_enter, Printf '': '', Printf ''exit status 0\<newline>'']\<rparr>)
   \<and> shell_run [Signal SIGTSTP, Pass (quiet_env\<lparr>input_line := ''status\<newline>''\<rparr>), Signal SIGINT]
        (install_handlers initial_state) =
       Running ((install_handlers initial_state)
                  \<lparr>fg_only := True,
                   log := [Write msg_enter, Printf '': '', Printf ''exit status 0\<newline>'']\<rparr>)
   \<and> shell_run [Signal SIGTSTP,
                Pass (quiet_env\<lparr>input_line := ''sleep 5 &\<newline>'', fork_ret := 0\<rparr>)]
        (install_handlers initial_state) =
       ChildExec [''sleep'', ''5'']
         ((install_handlers initial_state)
            \<lparr>fg_only := True,
             log := [Write msg_enter, Printf '': '', Fork, Execvp ''sleep'' [''sleep'', ''5'']]\<rparr>)
   \<and> sigint_action
        ((install_handlers initial_state)
            \<lparr>fg_only := True,
             log := [Write msg_enter, Printf '': '', Fork, Execvp ''sleep'' [''sleep'', ''5'']]\<rparr>) =
       SigHandler Handle_SIGINT True
   \<and> after_exec (sigint_action
        ((install_handlers initial_state)
            \<lparr>fg_only := True,
             log := [Write msg_enter, Printf '': '', Fork, Execvp ''sleep'' [''sleep'', ''5'']]\<rparr>)) =
       SIG_DFL
   \<and> foreground_process sleep_cmd (quiet_env\<lparr>fork_ret := 0\<rparr>) (install_handlers initial_state) =
       ChildExec [''sleep'', ''5'']
         (emit (Execvp ''sleep'' [''sleep'', ''5'']) (emit Fork (install_handlers initial_state)))
   \<and> sigint_action
        (emit (Execvp ''sleep'' [''sleep'', ''5'']) (emit Fork (install_handlers initial_state))) =
       sigint_action (install_handlers initial_state)
   \<and> deliver SIGINT (install_handlers initial_state) = Running (install_handlers initial_state)
   \<and> sigint_action initial_state = SIG_DFL
   \<and> deliver SIGINT initial_state = Killed 2"
proof -
  let ?i = "install_handlers initial_state"
  let ?a = "?i\<lparr>fg_only := True,
                 log := [Write msg_enter, Printf '': '', Printf ''exit status 0\<newline>'']\<rparr>"
  let ?b = "?i\<lparr>fg_only := True,
             log := [Write msg_enter, Printf '': '', Fork, Execvp ''sleep'' [''sleep'', ''5'']]\<rparr>"
  let ?c = "emit (Execvp ''sleep'' [''sleep'', ''5'']) (emit Fork ?i)"
  note m = foreground_only_status_run
  note x = foreground_only_child_run
  note y = sleep_child_run [of ?i]
  have d: "sigint_action initial_state = SIG_DFL" by (simp add: initial_state_def)
  have k: "sigint_action ?i = sigint_action (install_handlers initial_state)" by simp
  note t1 = sigint_handling [where steps = "[Signal SIGTSTP, Pass (quiet_env\<lparr>input_line := ''status\<newline>''\<rparr>)]"
      and s = ?a and t = initial_state and n = 2 and av = "[''sleep'', ''5'']" and s' = ?b
      and cmd = sleep_cmd and e = quiet_env and t' = ?b]
  note t2 = sigint_handling [where steps = "[Signal SIGTSTP,
              Pass (quiet_env\<lparr>input_line := ''sleep 5 &\<newline>'', fork_ret := 0\<rparr>)]"
      and s = ?a and t = initial_state and n = 2 and av = "[''sleep'', ''5'']" and s' = ?b
      and cmd = sleep_cmd and e = quiet_env and t' = ?b]
  note t3 = sigint_handling [where steps = "[]" and s = ?i and t = ?i and n = 2
      and av = "[''sleep'', ''5'']" and s' = ?c and cmd = sleep_cmd
      and e = "quiet_env\<lparr>fork_ret := 0\<rparr>" and t' = ?c]
  from t1 [THEN conjunct1] m
  have a1: "deliver SIGINT ?a = Running ?a
     \<and> shell_run ([Signal SIGTSTP, Pass (quiet_env\<lparr>input_line := ''status\<newline>''\<rparr>)] @ [Signal SIGINT]) ?i
        = Running ?a"
    by blast
  then have a1': "shell_run [Signal SIGTSTP, Pass (quiet_env\<lparr>input_line := ''status\<newline>''\<rparr>), Signal SIGINT] ?i
        = Running ?a"
    by simp
  from t2 [THEN conjunct2, THEN conjunct2, THEN conjunct1] x
  have a2: "sigint_action ?b = SigHandler Handle_SIGINT True \<and> after_exec (sigint_action ?b) = SIG_DFL"
    by blast
  from t3 [THEN conjunct2, THEN conjunct2, THEN conjunct2, THEN conjunct1] y
  have a4: "sigint_action ?c = sigint_action ?i" by blast
  from t3 [THEN conjunct2, THEN conjunct2, THEN conjunct2, THEN conjunct2, THEN conjunct1] k
  have a5: "deliver SIGINT ?i = Running ?i" by blast
  from t1 [THEN conjunct2, THEN conjunct2, THEN conjunct2, THEN conjunct2, THEN conjunct2,
      THEN conjunct1] d
  have a3: "deliver SIGINT initial_state = Killed 2" by (simp add: signo_def)
  from m x y a1 a1' a2 a3 a4 a5 d show ?thesis by blast
qed

section \<open>The status before any foreground command\<close>

text \<open>
  At startup \<open>prev_fg_status\<close> is not tagged as exited with code 0: neither flag is set.
  A record tagged as exited with code 0 is printed as "exit value 0".
\<close>

theorem initial_status_counterexample:
  "prev_fg_status (install_handlers initial_state) \<noteq> \<lparr>exited = True, terminated = False, code = 0\<rparr>
   \<and> status_message \<lparr>exited = True, terminated = False, code = 0\<rparr> \<noteq> ''exit status 0\<newline>''"
  by (simp add: install_handlers_def initial_state_def status_message_def show_ints)

text \<open>
  Claim C8, as amended. The loop starts from one initial state, with \<open>fg_only\<close> false and
  \<open>prev_fg_status\<close> holding neither tag and code 0. In any state whose \<open>prev_fg_status\<close>
  is still the initial one, \<open>status\<close> prints "exit status 0". The record stays the initial
  one until a command runs in the foreground: built-ins, background launches, the sweep and
  the signal handlers leave it as it is.
\<close>

theorem initial_status:
  "fg_only (install_handlers initial_state) = False
   \<and> prev_fg_status (install_handlers initial_state) = \<lparr>exited = False, terminated = False, code = 0\<rparr>
   \<and> main es = main_loop es (install_handlers initial_state)
   \<and> (prev_fg_status s = prev_fg_status (install_handlers initial_state) \<and> argv cmd = ''status'' # rest
        \<longrightarrow> main_dispatch cmd e s = Running (emit (Printf ''exit status 0\<newline>'') s))
   \<and> (main_dispatch cmd e s = Running s' \<and> \<not> runs_in_foreground cmd s
        \<longrightarrow> prev_fg_status s' = prev_fg_status s)
   \<and> prev_fg_status (check_background_processes pl s) = prev_fg_status s
   \<and> prev_fg_status (handle_SIGTSTP s) = prev_fg_status s
   \<and> prev_fg_status (handle_SIGINT s) = prev_fg_status s"
proof -
  have a: "prev_fg_status s = prev_fg_status (install_handlers initial_state) \<and> argv cmd = ''status'' # rest
        \<longrightarrow> main_dispatch cmd e s = Running (emit (Printf ''exit status 0\<newline>'') s)"
    by (simp add: main_dispatch_def status_message_def install_handlers_def initial_state_def)
  have b: "main_dispatch cmd e s = Running s' \<and> \<not> runs_in_foreground cmd s
        \<longrightarrow> prev_fg_status s' = prev_fg_status s"
    by (auto dest: main_dispatch_keeps_status)
  from a b show ?thesis
    by (simp add: install_handlers_def initial_state_def main_def handle_SIGTSTP_def handle_SIGINT_def)
qed

theorem initial_status_witness:
  "prev_fg_status (install_handlers initial_state) = \<lparr>exited = False, terminated = False, code = 0\<rparr>
   \<and> argv status_cmd = ''status'' # []
   \<and> main_dispatch status_cmd quiet_env (install_handlers initial_state) =
       Running (emit (Printf ''exit status 0\<newline>'') (install_handlers initial_state))
   \<and> \<not> runs_in_foreground status_cmd (install_handlers initial_state)
   \<and> prev_fg_status (emit (Printf ''exit status 0\<newline>'') (install_handlers initial_state)) =
       prev_fg_status (install_handlers initial_state)
   \<and> main [quiet_env\<lparr>input_line := ''status\<newline>''\<rparr>] =
       Running ((install_handlers initial_state)
                  \<lparr>log := [Printf '': '', Printf ''exit status 0\<newline>'']\<rparr>)"
proof -
  let ?s = "install_handlers initial_state"
  have a: "argv status_cmd = ''status'' # []" by (simp add: status_cmd_def)
  have n: "\<not> runs_in_foreground status_cmd ?s"
    by (simp add: runs_in_foreground_def is_builtin_def status_cmd_def)
  note th = initial_status [where s = ?s and cmd = status_cmd and rest = "[]" and e = quiet_env
      and s' = "emit (Printf ''exit status 0\<newline>'') ?s"]
  note i = th [THEN conjunct2, THEN conjunct1]
  from th [THEN conjunct2, THEN conjunct2, THEN conjunct2, THEN conjunct1] a
  have r: "main_dispatch status_cmd quiet_env ?s = Running (emit (Printf ''exit status 0\<newline>'') ?s)"
    by blast
  from th [THEN conjunct2, THEN conjunct2, THEN conjunct2, THEN conjunct2, THEN conjunct1] r n
  have k: "prev_fg_status (emit (Printf ''exit status 0\<newline>'') ?s) = prev_fg_status ?s"
    by blast
  from i a n r k main_status_run show ?thesis by blast
qed

section \<open>The SIGTSTP toggle\<close>

text \<open>
  Claim C9. Take any run of the shell from the state in which \<open>main\<close> has installed its
  handlers (passes of the loop and deliveries of signals, in any order; the runs of
  \<open>main\<close> are those made of passes only) that is back at the loop. A SIGTSTP delivered
  there does not stop the shell: it runs \<open>handle_SIGTSTP\<close>, which flips \<open>fg_only\<close> and
  writes exactly one banner, the entering banner when the flag goes from false to true, the
  exiting banner when it goes from true to false. Two deliveries in a row bring the shell
  back to the state it was in, but for the two banners written once each, in the order of
  the two flips. The same holds in every state whose disposition of
  SIGTSTP is the one \<open>main\<close> installed. The bytes written are the banner's text between
  two newlines.
\<close>

theorem sigtstp_toggle:
  assumes "shell_run steps (install_handlers initial_state) = Running s"
  shows "deliver SIGTSTP s =
      Running (s\<lparr>fg_only := \<not> fg_only s,
                 log := log s @ [Write (if fg_only s then msg_exit else msg_enter)]\<rparr>)
   \<and> shell_run (steps @ [Signal SIGTSTP]) (install_handlers initial_state) =
      Running (s\<lparr>fg_only := \<not> fg_only s,
                 log := log s @ [Write (if fg_only s then msg_exit else msg_enter)]\<rparr>)
   \<and> shell_run (steps @ [Signal SIGTSTP, Signal SIGTSTP]) (install_handlers initial_state) =
      Running (s\<lparr>log := log s @ (if fg_only s then [Write msg_exit, Write msg_enter]
                                  else [Write msg_enter, Write msg_exit])\<rparr>)
   \<and> (sigtstp_action t = sigtstp_action (install_handlers initial_state) \<longrightarrow>
        deliver SIGTSTP t =
          Running (t\<lparr>fg_only := \<not> fg_only t,
                     log := log t @ [Write (if fg_only t then msg_exit else msg_enter)]\<rparr>))
   \<and> msg_enter = ''\<newline>'' @ ''Entering foreground-only mode (& is now ignored)'' @ ''\<newline>''
   \<and> msg_exit = ''\<newline>'' @ ''Exiting foreground-only mode'' @ ''\<newline>''
   \<and> main es = shell_run (map Pass es) (install_handlers initial_state)"
proof -
  have any: "sigtstp_action t = sigtstp_action (install_handlers initial_state) \<longrightarrow>
        deliver SIGTSTP t =
          Running (t\<lparr>fg_only := \<not> fg_only t,
                     log := log t @ [Write (if fg_only t then msg_exit else msg_enter)]\<rparr>)"
  proof
    assume "sigtstp_action t = sigtstp_action (install_handlers initial_state)"
    then have "sigtstp_action t = SigHandler Handle_SIGTSTP False" by (simp add: installed)
    from deliver_handled(2) [OF this] show "deliver SIGTSTP t =
          Running (t\<lparr>fg_only := \<not> fg_only t,
                     log := log t @ [Write (if fg_only t then msg_exit else msg_enter)]\<rparr>)"
      by (simp add: handle_SIGTSTP_def emit_def)
  qed
  from shell_run_keeps_actions [OF assms]
  have h: "sigtstp_action s = SigHandler Handle_SIGTSTP False" by (simp add: installed)
  have one: "deliver SIGTSTP s =
      Running (s\<lparr>fg_only := \<not> fg_only s,
                 log := log s @ [Write (if fg_only s then msg_exit else msg_enter)]\<rparr>)"
    using deliver_handled(2) [OF h] by (simp add: handle_SIGTSTP_def emit_def)
  have h2: "sigtstp_action (s\<lparr>fg_only := \<not> fg_only s,
                 log := log s @ [Write (if fg_only s then msg_exit else msg_enter)]\<rparr>)
            = SigHandler Handle_SIGTSTP False"
    using h by simp
  have two: "deliver SIGTSTP (s\<lparr>fg_only := \<not> fg_only s,
                 log := log s @ [Write (if fg_only s then msg_exit else msg_enter)]\<rparr>) =
      Running (s\<lparr>log := log s @ (if fg_only s then [Write msg_exit, Write msg_enter]
                                  else [Write msg_enter, Write msg_exit])\<rparr>)"
    using deliver_handled(2) [OF h2] by (simp add: handle_SIGTSTP_def emit_def)
  from assms one have r1: "shell_run (steps @ [Signal SIGTSTP]) (install_handlers initial_state) =
      Running (s\<lparr>fg_only := \<not> fg_only s,
                 log := log s @ [Write (if fg_only s then msg_exit else msg_enter)]\<rparr>)"
    by (simp add: shell_run_append)
  from assms one two
  have r2: "shell_run (steps @ [Signal SIGTSTP, Signal SIGTSTP]) (install_handlers initial_state) =
      Running (s\<lparr>log := log s @ (if fg_only s then [Write msg_exit, Write msg_enter]
                                  else [Write msg_enter, Write msg_exit])\<rparr>)"
    by (simp add: shell_run_append)
  from one r1 r2 any main_as_run [of es] show ?thesis
    by (simp add: msg_enter_def msg_exit_def)
qed

theorem sigtstp_toggle_witness:
  "shell_run [] (install_handlers initial_state) = Running (install_handlers initial_state)
   \<and> \<not> fg_only (install_handlers initial_state)
   \<and> deliver SIGTSTP (install_handlers initial_state) =
       Running ((install_handlers initial_state)
                  \<lparr>fg_only := True,
                   log := [Write ''\<newline>Entering foreground-only mode (& is now ignored)\<newline>'']\<rparr>)
   \<and> shell_run [Signal SIGTSTP] (install_handlers initial_state) =
       Running ((install_handlers initial_state)
                  \<lparr>fg_only := True,
                   log := [Write ''\<newline>Entering foreground-only mode (& is now ignored)\<newline>'']\<rparr>)
   \<and> shell_run [Signal SIGTSTP, Signal SIGTSTP] (install_handlers initial_state) =
       Running ((install_handlers initial_state)
                  \<lparr>log := [Write ''\<newline>Entering foreground-only mode (& is now ignored)\<newline>'',
                           Write ''\<newline>Exiting foreground-only mode\<newline>'']\<rparr>)
   \<and> shell_run [Signal SIGTSTP, Pass (quiet_env\<lparr>input_line := ''status\<newline>''\<rparr>)]
        (install_handlers initial_state) =
       Running ((install_handlers initial_state)
                  \<lparr>fg_only := True,
                   log := [Write msg_enter, Printf '': '', Printf ''exit status 0\<newline>'']\<rparr>)
   \<and> shell_run [Signal SIGTSTP, Pass (quiet_env\<lparr>input_line := ''status\<newline>''\<rparr>), Signal SIGTSTP]
        (install_handlers initial_state) =
       Running ((install_handlers initial_state)
                  \<lparr>log := [Write msg_enter, Printf '': '', Printf ''exit status 0\<newline>'',
                           Write ''\<newline>Exiting foreground-only mode\<newline>'']\<rparr>)"
proof -
  let ?s = "install_handlers initial_state"
  let ?a = "?s\<lparr>fg_only := True,
                 log := [Write msg_enter, Printf '': '', Printf ''exit status 0\<newline>'']\<rparr>"
  have r: "shell_run [] ?s = Running ?s" by simp
  have f: "\<not> fg_only ?s" by (simp add: install_handlers_def initial_state_def)
  have k: "sigtstp_action ?s = sigtstp_action (install_handlers initial_state)" by simp
  note m = foreground_only_status_run
  note th = sigtstp_toggle [OF r, where t = ?s]
  note th2 = sigtstp_toggle [OF m, where t = ?s]
  from th [THEN conjunct2, THEN conjunct2, THEN conjunct2, THEN conjunct1] k f
  have d: "deliver SIGTSTP ?s =
       Running (?s\<lparr>fg_only := True,
                   log := [Write ''\<newline>Entering foreground-only mode (& is now ignored)\<newline>'']\<rparr>)"
    by (simp add: msg_enter_def install_handlers_def initial_state_def)
  from th [THEN conjunct2, THEN conjunct1] f
  have a: "shell_run [Signal SIGTSTP] ?s =
       Running (?s\<lparr>fg_only := True,
                   log := [Write ''\<newline>Entering foreground-only mode (& is now ignored)\<newline>'']\<rparr>)"
    by (simp add: msg_enter_def install_handlers_def initial_state_def)
  from th [THEN conjunct2, THEN conjunct2, THEN conjunct1] f
  have b: "shell_run [Signal SIGTSTP, Signal SIGTSTP] ?s =
       Running (?s\<lparr>log := [Write ''\<newline>Entering foreground-only mode (& is now ignored)\<newline>'',
                           Write ''\<newline>Exiting foreground-only mode\<newline>'']\<rparr>)"
    by (simp add: msg_enter_def msg_exit_def install_handlers_def initial_state_def)
  from th2 [THEN conjunct2, THEN conjunct1]
  have c: "shell_run [Signal SIGTSTP, Pass (quiet_env\<lparr>input_line := ''status\<newline>''\<rparr>), Signal SIGTSTP] ?s =
       Running (?s\<lparr>log := [Write msg_enter, Printf '': '', Printf ''exit status 0\<newline>'',
                           Write ''\<newline>Exiting foreground-only mode\<newline>'']\<rparr>)"
    by (simp add: msg_exit_def install_handlers_def initial_state_def)
  from r f d a b m c show ?thesis by blast
qed

section \<open>A redirection operator with no file name\<close>

text \<open>
  A line whose final token is \<open><\<close> is parsed without a crash when that token is itself
  the file name of the operator before it.
\<close>

theorem parse_final_redirect_counterexample:
  "parse_input (quiet_env\<lparr>input_line := ''cat < <\<newline>''\<rparr>) =
     Inr \<lparr>argv = [''cat''], input_file = Some ''<'', output_file = None, is_bg = False\<rparr>"
  by (simp add: parse_input_def parse_line_def fgets_def INPUT_LENGTH_def is_delim_def
      empty_command_def parse_tokens.simps(2) quiet_env_def)

text \<open>
  Claim C10, as amended. A \<open><\<close> or \<open>>\<close> that directly follows a redirection operator is
  that operator's file name. So what decides is the number of \<open><\<close> and \<open>>\<close> tokens in a
  row at the end of the line: \<open>parse_input\<close> returns a command only when that number is even,
  and when it is odd (as when the final token is \<open><\<close> or \<open>>\<close> and the token before it
  is neither) the last operator has no token after it, \<open>strdup\<close> gets a null pointer and
  the parse crashes instead of reporting an error. With at most \<open>MAX_ARGS + 1\<close> tokens,
  where \<open>argv\<close> cannot overflow, this is the only way the parse fails. The tokens are
  those that \<open>strtok\<close> finds, so the line ends at its first NUL byte.
\<close>

theorem parse_redirect_operand:
  assumes ts: "ts = strtok_all [] (fgets INPUT_LENGTH (stale_buffer e) (input_line e))"
  shows "((\<exists>c. parse_input e = Inr c) \<longrightarrow> even (trailing_redirs ts))
     \<and> (parse_input e = Inl NullDeref \<longrightarrow> odd (trailing_redirs ts))
     \<and> (odd (trailing_redirs ts) \<longrightarrow> (\<exists>err. parse_input e = Inl err))
     \<and> (length ts \<le> Suc MAX_ARGS \<longrightarrow>
          (odd (trailing_redirs ts) \<longrightarrow> parse_input e = Inl NullDeref)
          \<and> (even (trailing_redirs ts) \<longrightarrow> (\<exists>c. parse_input e = Inr c)))
     \<and> (\<forall>pre t. ts = pre @ [t] \<and> is_redir t \<and> (pre = [] \<or> \<not> is_redir (last pre))
          \<longrightarrow> trailing_redirs ts = 1)"
proof -
  have p: "parse_input e = parse_tokens ts empty_command"
    by (simp add: parse_input_def parse_line_def ts)
  have a: "(\<exists>c. parse_input e = Inr c) \<longrightarrow> even (trailing_redirs ts)"
  proof (rule ccontr)
    assume "\<not> ((\<exists>c. parse_input e = Inr c) \<longrightarrow> even (trailing_redirs ts))"
    then obtain c where c: "parse_input e = Inr c" and o: "odd (trailing_redirs ts)" by blast
    from parse_tokens_odd_fails [OF o, of empty_command] c show False by (simp add: p)
  qed
  have b: "parse_input e = Inl NullDeref \<longrightarrow> odd (trailing_redirs ts)"
    using parse_tokens_NullDeref_odd [of ts empty_command] by (simp add: p)
  have c: "odd (trailing_redirs ts) \<longrightarrow> (\<exists>err. parse_input e = Inl err)"
    using parse_tokens_odd_fails [of ts empty_command] by (simp add: p)
  have d: "length ts \<le> Suc MAX_ARGS \<longrightarrow>
          (odd (trailing_redirs ts) \<longrightarrow> parse_input e = Inl NullDeref)
          \<and> (even (trailing_redirs ts) \<longrightarrow> (\<exists>c. parse_input e = Inr c))"
    using parse_tokens_dangling [of empty_command ts] by (simp add: p empty_command_def)
  have f: "\<forall>pre t. ts = pre @ [t] \<and> is_redir t \<and> (pre = [] \<or> \<not> is_redir (last pre))
          \<longrightarrow> trailing_redirs ts = 1"
    by (auto simp: trailing_redirs_last)
  from a b c d f show ?thesis by blast
qed

theorem parse_redirect_operand_witness:
  "[''cat'', ''<''] =
     strtok_all [] (fgets INPUT_LENGTH (stale_buffer (quiet_env\<lparr>input_line := ''cat <\<newline>''\<rparr>))
                      (input_line (quiet_env\<lparr>input_line := ''cat <\<newline>''\<rparr>)))
   \<and> length [''cat'', ''<''] \<le> Suc MAX_ARGS
   \<and> is_redir ''<''
   \<and> trailing_redirs [''cat'', ''<''] = 1
   \<and> parse_input (quiet_env\<lparr>input_line := ''cat <\<newline>''\<rparr>) = Inl NullDeref
   \<and> [''cat'', ''<''] =
       strtok_all []
         (fgets INPUT_LENGTH
            (stale_buffer (quiet_env\<lparr>input_line := ''cat < '' @ [CHR 0x00] @ ''x\<newline>''\<rparr>))
            (input_line (quiet_env\<lparr>input_line := ''cat < '' @ [CHR 0x00] @ ''x\<newline>''\<rparr>)))
   \<and> parse_input (quiet_env\<lparr>input_line := ''cat < '' @ [CHR 0x00] @ ''x\<newline>''\<rparr>) = Inl NullDeref"
proof -
  have t: "[''cat'', ''<''] =
     strtok_all [] (fgets INPUT_LENGTH (stale_buffer (quiet_env\<lparr>input_line := ''cat <\<newline>''\<rparr>))
                      (input_line (quiet_env\<lparr>input_line := ''cat <\<newline>''\<rparr>)))"
    by (rule tokens_cat_lt [symmetric])
  have t0: "[''cat'', ''<''] =
       strtok_all []
         (fgets INPUT_LENGTH
            (stale_buffer (quiet_env\<lparr>input_line := ''cat < '' @ [CHR 0x00] @ ''x\<newline>''\<rparr>))
            (input_line (quiet_env\<lparr>input_line := ''cat < '' @ [CHR 0x00] @ ''x\<newline>''\<rparr>)))"
    by (rule tokens_cat_lt_nul [symmetric])
  have r: "is_redir ''<''" by (simp add: is_redir_def)
  have l: "length [''cat'', ''<''] \<le> Suc MAX_ARGS" by (simp add: MAX_ARGS_def)
  note th = parse_redirect_operand [OF t]
  note d = th [THEN conjunct2, THEN conjunct2, THEN conjunct2, THEN conjunct1]
  note f = th [THEN conjunct2, THEN conjunct2, THEN conjunct2, THEN conjunct2]
  note d0 = parse_redirect_operand [OF t0, THEN conjunct2, THEN conjunct2, THEN conjunct2,
      THEN conjunct1]
  from f [rule_format, of "[''cat'']" "''<''"] have one: "trailing_redirs [''cat'', ''<''] = 1"
    by (simp add: is_redir_def)
  with d l have p: "parse_input (quiet_env\<lparr>input_line := ''cat <\<newline>''\<rparr>) = Inl NullDeref"
    by simp
  from one d0 l
  have p0: "parse_input (quiet_env\<lparr>input_line := ''cat < '' @ [CHR 0x00] @ ''x\<newline>''\<rparr>) = Inl NullDeref"
    by simp
  from t r l one p t0 p0 show ?thesis by blast
qed

end
